theory Spec2Isabelle
  imports Complex_Main
begin

section \<open>The JSON plugin's variant-to-map converter\<close>

text \<open>
  A shallow embedding of \<^verbatim>\<open>src/plugins/json/varianttomapconverter.cpp\<close>: the walk over a
  tree of dynamic values (Qt's \<^verbatim>\<open>QVariant\<close>) that builds the map document, its tilesets,
  its layers and its objects, or returns a null pointer and leaves a message in \<^verbatim>\<open>mError\<close>.
\<close>

subsection \<open>Machine integers\<close>

text \<open>
  A C++ \<^verbatim>\<open>int\<close> is a HOL \<open>int\<close> kept inside the 32-bit range; every conversion and every
  product that can leave the range is wrapped the way the two's-complement targets do.
\<close>

definition wrap_int32 :: "int \<Rightarrow> int" where
  "wrap_int32 i = (i + 2147483648) mod 4294967296 - 2147483648"

definition wrap_uint32 :: "int \<Rightarrow> int" where
  "wrap_uint32 i = i mod 4294967296"

subsection \<open>Strings and numbers (QString)\<close>

definition squote :: char where "squote = CHR 0x27"
definition dquote :: char where "dquote = CHR 0x22"
definition newline :: char where "newline = CHR 0x0A"

definition digit_char :: "nat \<Rightarrow> char" where
  "digit_char d = ''0123456789'' ! d"

function nat_to_string :: "nat \<Rightarrow> string" where
  "nat_to_string n = (if n < 10 then [digit_char n] else nat_to_string (n div 10) @ [digit_char (n mod 10)])"
  by pat_completeness auto
termination
  by (relation "measure (\<lambda>n. n)") auto

declare nat_to_string.simps [simp del]

text \<open>\<^verbatim>\<open>QString::number(int)\<close>, the text that \<^verbatim>\<open>.arg(int)\<close> puts in a message.\<close>

definition QString_number :: "int \<Rightarrow> string" where
  "QString_number i = (if i < 0 then CHR ''-'' # nat_to_string (nat (- i)) else nat_to_string (nat i))"

definition is_space :: "char \<Rightarrow> bool" where
  "is_space c = (c = CHR '' '' \<or> (9 \<le> (of_char c :: nat) \<and> (of_char c :: nat) \<le> 13))"

definition trimmed :: "string \<Rightarrow> string" where
  "trimmed s = rev (dropWhile is_space (rev (dropWhile is_space s)))"

definition digit_value :: "char \<Rightarrow> nat option" where
  "digit_value c = (let n = (of_char c :: nat) in if 48 \<le> n \<and> n \<le> 57 then Some (n - 48) else None)"

fun digits_value :: "nat \<Rightarrow> string \<Rightarrow> nat option" where
  "digits_value acc [] = Some acc"
| "digits_value acc (c # cs) =
     (case digit_value c of None \<Rightarrow> None | Some d \<Rightarrow> digits_value (10 * acc + d) cs)"

text \<open>
  The decimal integers Qt's C-locale parser accepts: surrounding white space, one optional
  sign, at least one digit, nothing else. \<open>None\<close> is a failed conversion.
\<close>

definition parse_integer :: "string \<Rightarrow> int option" where
  "parse_integer s =
     (case trimmed s of
        [] \<Rightarrow> None
      | c # cs \<Rightarrow>
          if c = CHR ''-'' then
            (if cs = [] then None else map_option (\<lambda>n. - int n) (digits_value 0 cs))
          else if c = CHR ''+'' then
            (if cs = [] then None else map_option int (digits_value 0 cs))
          else map_option int (digits_value 0 (c # cs)))"

text \<open>\<^verbatim>\<open>QString::toInt()\<close>: 0 when the text is no decimal integer or does not fit an \<^verbatim>\<open>int\<close>.\<close>

definition QString_toInt :: "string \<Rightarrow> int" where
  "QString_toInt s =
     (case parse_integer s of
        None \<Rightarrow> 0
      | Some i \<Rightarrow> if - 2147483648 \<le> i \<and> i \<le> 2147483647 then i else 0)"

text \<open>\<^verbatim>\<open>QString::toLongLong(&ok)\<close> and \<^verbatim>\<open>QString::toULongLong(&ok)\<close>.\<close>

definition QString_toLongLong :: "string \<Rightarrow> int option" where
  "QString_toLongLong s =
     (case parse_integer s of
        None \<Rightarrow> None
      | Some i \<Rightarrow> if - 9223372036854775808 \<le> i \<and> i \<le> 9223372036854775807 then Some i else None)"

definition QString_toULongLong :: "string \<Rightarrow> int option" where
  "QString_toULongLong s =
     (case parse_integer s of
        None \<Rightarrow> None
      | Some i \<Rightarrow>
          if hd (trimmed s) = CHR ''-'' then None
          else if i \<le> 18446744073709551615 then Some i else None)"

definition lower_char :: "char \<Rightarrow> char" where
  "lower_char c =
     (case map_of (zip ''ABCDEFGHIJKLMNOPQRSTUVWXYZ'' ''abcdefghijklmnopqrstuvwxyz'') c of
        None \<Rightarrow> c
      | Some l \<Rightarrow> l)"

definition to_lower :: "string \<Rightarrow> string" where
  "to_lower s = map lower_char s"

subsection \<open>Dynamic values (QVariant, QVariantMap, QVariantList)\<close>

text \<open>
  The values a JSON parser hands over. A \<^verbatim>\<open>QVariantMap\<close> is the list of its entries in the
  order the map iterates them (ascending keys, each key once); \<open>Invalid\<close> is the
  default-constructed variant that \<^verbatim>\<open>operator[]\<close> gives for a key that is not there.
\<close>

datatype variant =
    Invalid
  | VBool bool
  | VInt int
  | VDouble real
  | VString string
  | VList "variant list"
  | VMap "(string \<times> variant) list"

type_synonym variantMap = "(string \<times> variant) list"

definition value_of :: "variantMap \<Rightarrow> string \<Rightarrow> variant" where
  "value_of m k = (case map_of m k of None \<Rightarrow> Invalid | Some v \<Rightarrow> v)"

definition contains :: "variantMap \<Rightarrow> string \<Rightarrow> bool" where
  "contains m k = (map_of m k \<noteq> None)"

definition isNull :: "variant \<Rightarrow> bool" where
  "isNull v = (v = Invalid)"

definition isValid :: "variant \<Rightarrow> bool" where
  "isValid v = (v \<noteq> Invalid)"

fun toList :: "variant \<Rightarrow> variant list" where
  "toList (VList xs) = xs"
| "toList _ = []"

fun toVariantMap :: "variant \<Rightarrow> variantMap" where
  "toVariantMap (VMap m) = m"
| "toVariantMap _ = []"

text \<open>\<^verbatim>\<open>qRound64\<close>: halves go up.\<close>

definition qRound64 :: "real \<Rightarrow> int" where
  "qRound64 d = \<lfloor>d + 1 / 2\<rfloor>"

text \<open>\<^verbatim>\<open>QVariant::toInt(&ok)\<close>; \<open>None\<close> is \<^verbatim>\<open>ok == false\<close>, where the call returns 0.\<close>

fun toInt_ok :: "variant \<Rightarrow> int option" where
  "toInt_ok (VBool b) = Some (if b then 1 else 0)"
| "toInt_ok (VInt i) = Some (wrap_int32 i)"
| "toInt_ok (VDouble d) = Some (wrap_int32 (qRound64 d))"
| "toInt_ok (VString s) = map_option wrap_int32 (QString_toLongLong s)"
| "toInt_ok _ = None"

definition toInt :: "variant \<Rightarrow> int" where
  "toInt v = (case toInt_ok v of None \<Rightarrow> 0 | Some i \<Rightarrow> i)"

text \<open>\<^verbatim>\<open>QVariant::toUInt(&ok)\<close>.\<close>

fun toUInt_ok :: "variant \<Rightarrow> int option" where
  "toUInt_ok (VBool b) = Some (if b then 1 else 0)"
| "toUInt_ok (VInt i) = Some (wrap_uint32 i)"
| "toUInt_ok (VDouble d) = Some (wrap_uint32 (qRound64 d))"
| "toUInt_ok (VString s) = map_option wrap_uint32 (QString_toULongLong s)"
| "toUInt_ok _ = None"

text \<open>\<^verbatim>\<open>QVariant::toBool()\<close>.\<close>

fun toBool :: "variant \<Rightarrow> bool" where
  "toBool (VBool b) = b"
| "toBool (VInt i) = (i \<noteq> 0)"
| "toBool (VDouble d) = (d \<noteq> 0)"
| "toBool (VString s) = (let l = to_lower s in \<not> (l = ''0'' \<or> l = ''false'' \<or> l = []))"
| "toBool _ = False"

text \<open>
  Qt's text-to-double and double-to-text conversions, its colour-name test, its image
  decoder and its path functions are not part of the plugin: the converter is run against
  any implementation of them.
\<close>

record qt_env =
  stringToDouble :: "string \<Rightarrow> real option"
  doubleToString :: "real \<Rightarrow> string"
  isValidColor :: "string \<Rightarrow> bool"
  imageSize :: "string \<Rightarrow> (int \<times> int) option"
  isRelativePath :: "string \<Rightarrow> bool"
  absoluteCleanPath :: "string \<Rightarrow> string \<Rightarrow> string"

text \<open>\<^verbatim>\<open>QVariant::toString()\<close>: empty for a value that is no scalar.\<close>

fun toString :: "'a qt_env_scheme \<Rightarrow> variant \<Rightarrow> string" where
  "toString q (VString s) = s"
| "toString q (VBool b) = (if b then ''true'' else ''false'')"
| "toString q (VInt i) = QString_number i"
| "toString q (VDouble d) = doubleToString q d"
| "toString q _ = []"

text \<open>\<^verbatim>\<open>QVariant::toReal(&ok)\<close>, \<^verbatim>\<open>toDouble\<close> and \<^verbatim>\<open>toFloat\<close>, on the reals.\<close>

fun toReal_ok :: "'a qt_env_scheme \<Rightarrow> variant \<Rightarrow> real option" where
  "toReal_ok q (VBool b) = Some (if b then 1 else 0)"
| "toReal_ok q (VInt i) = Some (of_int i)"
| "toReal_ok q (VDouble d) = Some d"
| "toReal_ok q (VString s) = stringToDouble q s"
| "toReal_ok q _ = None"

definition toReal :: "'a qt_env_scheme \<Rightarrow> variant \<Rightarrow> real" where
  "toReal q v = (case toReal_ok q v of None \<Rightarrow> 0 | Some d \<Rightarrow> d)"

text \<open>
  \<^verbatim>\<open>variant == "text"\<close>: the text is converted to the type of the variant and the two
  values are compared there; a variant with no conversion from text is never equal.
\<close>

fun equals_text :: "'a qt_env_scheme \<Rightarrow> variant \<Rightarrow> string \<Rightarrow> bool" where
  "equals_text q (VString t) s = (t = s)"
| "equals_text q (VBool b) s = (b = toBool (VString s))"
| "equals_text q (VInt i) s = (toInt_ok (VString s) = Some (wrap_int32 i))"
| "equals_text q (VDouble d) s = (stringToDouble q s = Some d)"
| "equals_text q _ s = False"

text \<open>\<^verbatim>\<open>QVariant::value<QColor>()\<close> and \<^verbatim>\<open>QColor(name)\<close>.\<close>

datatype qcolor = InvalidColor | NamedColor string

fun toColor :: "'a qt_env_scheme \<Rightarrow> variant \<Rightarrow> qcolor" where
  "toColor q (VString s) = (if isValidColor q s then NamedColor s else InvalidColor)"
| "toColor q _ = InvalidColor"

subsection \<open>The document model\<close>

type_synonym properties = "(string \<times> string) list"

text \<open>
  Modelled from the spec: the class \<^verbatim>\<open>Cell\<close> is declared outside this file. A cell is
  empty or refers to a tile by the first global id of its tileset and the tile's local
  index.
\<close>

datatype cell = EmptyCell | TileCell int int

datatype shape = Rectangle | Polygon | Polyline | Ellipse

datatype drawOrder = UnknownOrder | TopDownOrder | IndexOrder

datatype rtbObjectType =
    CustomFloorTrap | MovingFloorTrapSpawner | Button | LaserBeam | ProjectileTurret
  | Teleporter | Target | FloorText | CameraTrigger | StartLocation | FinishHole
  | NPCBallSpawner | OtherObjectType

text \<open>
  The extension record of an object, with the fields \<^verbatim>\<open>toRTBMapObject\<close> writes for its
  category; \<open>RTBUnwritten\<close> is a category the converter leaves as it was created.
\<close>

datatype rtbMapObject =
    RTBCustomFloorTrap (intervalSpeed: int) (intervalOffset: int)
  | RTBMovingFloorTrapSpawner (spawnAmount: int) (intervalSpeed: int) (randomizeStart: int)
  | RTBButtonObject (beatsActive: int) (laserBeamTargets: string)
  | RTBLaserBeam (beamType: int) (activatedOnStart: int) (directionDegrees: int)
      (targetDirectionDegrees: int) (intervalOffset: int) (intervalSpeed: int)
  | RTBProjectileTurret (intervalSpeed: int) (intervalOffset: int) (projectileSpeed: int)
      (shotDirection: int)
  | RTBTeleporter (teleporterTarget: string)
  | RTBFloorText (floorText: string) (maxCharacters: int) (triggerZoneSize: "real \<times> real")
      (useTrigger: int) (textScale: real) (offsetX: real) (offsetY: real)
  | RTBCameraTrigger (cameraTarget: string) (triggerZoneSize: "real \<times> real") (cameraHeight: int)
      (cameraAngle: int)
  | RTBNPCBallSpawner (spawnClass: int) (ballSize: int) (intervalOffset: int) (spawnFrequency: int)
      (speed: int) (direction: int)
  | RTBUnwritten rtbObjectType

record mapObject =
  o_id :: int
  o_name :: string
  o_type :: string
  o_pos :: "real \<times> real"
  o_width :: real
  o_height :: real
  o_rotation :: real
  o_cell :: cell
  o_visible :: bool
  o_properties :: properties
  o_shape :: shape
  o_polygon :: "(real \<times> real) list"
  o_rtbMapObject :: "rtbMapObject option"

record layer =
  l_name :: string
  l_x :: int
  l_y :: int
  l_width :: int
  l_height :: int
  l_opacity :: real
  l_visible :: bool
  l_properties :: properties

record tileLayer = layer +
  grid :: "cell list"

record objectGroup = layer +
  objects :: "mapObject list"
  color :: qcolor
  drawOrder :: drawOrder

record imageLayer = layer +
  il_transparentColor :: qcolor
  il_imageSource :: string

datatype anyLayer = ATileLayer tileLayer | AnObjectGroup objectGroup | AnImageLayer imageLayer

record tile =
  t_id :: int
  t_size :: "int \<times> int"
  t_imageSource :: string
  t_terrain :: "int list"
  t_terrainProbability :: "real option"
  t_objectGroup :: "objectGroup option"
  t_frames :: "(int \<times> int) list"
  t_properties :: properties

record tileset =
  ts_name :: string
  ts_tileWidth :: int
  ts_tileHeight :: int
  ts_spacing :: int
  ts_margin :: int
  ts_tileOffset :: "int \<times> int"
  ts_transparentColor :: qcolor
  ts_imageSource :: string
  ts_terrains :: "(string \<times> int) list"
  ts_tiles :: "tile list"
  ts_properties :: properties

text \<open>
  What the converter calls in the host model and does not define: the tileset's image
  loader (it cuts the decoded image into tiles, or fails), the choice of an object's
  extension category when \<^verbatim>\<open>createRTBMapObject\<close> runs, and the enumeration parsers.
\<close>

record env = qt_env +
  tilesetLoadFromImage :: "string \<Rightarrow> tileset \<Rightarrow> tileset option"
  rtbObjectTypeOf :: "mapObject \<Rightarrow> rtbObjectType"
  staggerAxisFromString :: "string \<Rightarrow> nat"
  staggerIndexFromString :: "string \<Rightarrow> nat"
  renderOrderFromString :: "string \<Rightarrow> nat"
  drawOrderFromString :: "string \<Rightarrow> drawOrder"

text \<open>
  The converter object: \<^verbatim>\<open>mError\<close>, \<^verbatim>\<open>mGidMapper\<close> (first global id to tileset, one entry
  per key) and \<^verbatim>\<open>mMapDir\<close>.
\<close>

record converter =
  mError :: string
  mGidMapper :: "(int \<times> tileset) list"
  mMapDir :: string

text \<open>
  What a builder hands back: the entity, a null pointer, or nothing defined, where the
  source indexes a container outside its range (\<^verbatim>\<open>QList::at\<close> with a negative index,
  \<^verbatim>\<open>TileLayer::setCell\<close> outside the layer).
\<close>

datatype 'a built = Built 'a | Null | OutOfContract

definition quoted :: "string \<Rightarrow> string" where
  "quoted s = squote # s @ [squote]"

subsection \<open>Tileset operations and the global-id mapper\<close>

definition tileCount :: "tileset \<Rightarrow> int" where
  "tileCount ts = int (length (ts_tiles ts))"

text \<open>
  Modelled from the spec: \<^verbatim>\<open>Tileset::addTile\<close> with an empty pixmap appends a placeholder
  tile (no image, corner terrains unset at -1, probability unset).
\<close>

definition placeholderTile :: "int \<Rightarrow> tile" where
  "placeholderTile i =
     \<lparr>t_id = i, t_size = (0, 0), t_imageSource = [], t_terrain = [-1, -1, -1, -1],
      t_terrainProbability = None, t_objectGroup = None, t_frames = [], t_properties = []\<rparr>"

definition addTile :: "tileset \<Rightarrow> tileset" where
  "addTile ts = ts\<lparr>ts_tiles := ts_tiles ts @ [placeholderTile (tileCount ts)]\<rparr>"

text \<open>
  Modelled from the spec: \<^verbatim>\<open>Tileset::tileAt\<close> gives the tile at a local index, and no tile
  at or beyond the tile count. The converter also calls it with a negative index, which
  the list underneath does not allow; that call is \<open>OutOfContract\<close> in the builder.
\<close>

definition tileAt :: "tileset \<Rightarrow> int \<Rightarrow> tile option" where
  "tileAt ts i = (if 0 \<le> i \<and> i < tileCount ts then Some (ts_tiles ts ! nat i) else None)"

text \<open>
  Modelled from the spec: the class \<^verbatim>\<open>GidMapper\<close> is outside this file. Registering under
  a first global id replaces an earlier tileset with the same id; resolving picks the
  tileset with the greatest first global id not above the queried id, the local index is
  the difference, and global id 0, an id below every tileset and an index outside the
  tileset's tiles give the empty cell.
\<close>

definition gidInsert :: "(int \<times> tileset) list \<Rightarrow> int \<Rightarrow> tileset \<Rightarrow> (int \<times> tileset) list" where
  "gidInsert m firstGid ts = (firstGid, ts) # filter (\<lambda>e. fst e \<noteq> firstGid) m"

fun greatestBelow :: "(int \<times> tileset) list \<Rightarrow> int \<Rightarrow> (int \<times> tileset) option" where
  "greatestBelow [] gid = None"
| "greatestBelow (e # es) gid =
     (case greatestBelow es gid of
        None \<Rightarrow> if fst e \<le> gid then Some e else None
      | Some b \<Rightarrow> if fst e \<le> gid \<and> fst b < fst e then Some e else Some b)"

definition gidToCell :: "(int \<times> tileset) list \<Rightarrow> int \<Rightarrow> cell" where
  "gidToCell m gid =
     (if gid = 0 then EmptyCell
      else case greatestBelow m gid of
        None \<Rightarrow> EmptyCell
      | Some (firstGid, ts) \<Rightarrow>
          if gid - firstGid < tileCount ts then TileCell firstGid (gid - firstGid) else EmptyCell)"

text \<open>The tile a cell points at (\<^verbatim>\<open>cell.tile\<close>); \<open>None\<close> for the empty cell.\<close>

fun cellTile :: "(int \<times> tileset) list \<Rightarrow> cell \<Rightarrow> tile option" where
  "cellTile m EmptyCell = None"
| "cellTile m (TileCell firstGid i) =
     (case map_of m firstGid of None \<Rightarrow> None | Some ts \<Rightarrow> tileAt ts i)"

subsection \<open>Properties, polygons and paths\<close>

definition resolvePath :: "'a qt_env_scheme \<Rightarrow> string \<Rightarrow> variant \<Rightarrow> string" where
  "resolvePath q dir variant =
     (let fileName = toString q variant
      in if isRelativePath q fileName then absoluteCleanPath q dir fileName else fileName)"

definition toProperties :: "'a qt_env_scheme \<Rightarrow> variant \<Rightarrow> properties" where
  "toProperties q variant = map (\<lambda>(k, v). (k, toString q v)) (toVariantMap variant)"

definition toPolygon :: "'a qt_env_scheme \<Rightarrow> variant \<Rightarrow> (real \<times> real) list" where
  "toPolygon q variant =
     map (\<lambda>pointVariant.
            let pointVariantMap = toVariantMap pointVariant
            in (toReal q (value_of pointVariantMap ''x''), toReal q (value_of pointVariantMap ''y'')))
         (toList variant)"

subsection \<open>Objects and their extension records\<close>

text \<open>\<^verbatim>\<open>toRTBMapObject\<close>: one case per category, each reading its own fields.\<close>

definition sentinelTarget :: "string \<Rightarrow> string" where
  "sentinelTarget target = (if target \<noteq> ''0'' then target else [])"

fun toRTBMapObject :: "'a qt_env_scheme \<Rightarrow> variantMap \<Rightarrow> rtbObjectType \<Rightarrow> rtbMapObject" where
  "toRTBMapObject q variantMap CustomFloorTrap =
     RTBCustomFloorTrap (toInt (value_of variantMap ''intervalspeed''))
       (toInt (value_of variantMap ''intervaloffset''))"
| "toRTBMapObject q variantMap MovingFloorTrapSpawner =
     RTBMovingFloorTrapSpawner (toInt (value_of variantMap ''spawnamount''))
       (toInt (value_of variantMap ''intervalspeed''))
       (toInt (value_of variantMap ''randomizestart''))"
| "toRTBMapObject q variantMap Button =
     RTBButtonObject (toInt (value_of variantMap ''beatsactive''))
       (toString q (value_of variantMap ''laserbeamtargets''))"
| "toRTBMapObject q variantMap LaserBeam =
     RTBLaserBeam (toInt (value_of variantMap ''beamtype''))
       (toInt (value_of variantMap ''activatedonstart''))
       (toInt (value_of variantMap ''directiondegrees''))
       (toInt (value_of variantMap ''targetdirectiondegrees''))
       (toInt (value_of variantMap ''intervaloffset''))
       (toInt (value_of variantMap ''intervalspeed''))"
| "toRTBMapObject q variantMap ProjectileTurret =
     RTBProjectileTurret (toInt (value_of variantMap ''intervalspeed''))
       (toInt (value_of variantMap ''intervaloffset''))
       (toInt (value_of variantMap ''projectilespeed''))
       (toInt (value_of variantMap ''shotdirection''))"
| "toRTBMapObject q variantMap Teleporter =
     RTBTeleporter (sentinelTarget (toString q (value_of variantMap ''teleportertarget'')))"
| "toRTBMapObject q variantMap FloorText =
     RTBFloorText (toString q (value_of variantMap ''text''))
       (toInt (value_of variantMap ''maxcharacters''))
       (of_int (toInt (value_of variantMap ''triggerzonewidth'')),
        of_int (toInt (value_of variantMap ''triggerzoneheight'')))
       (toInt (value_of variantMap ''usetrigger''))
       (toReal q (value_of variantMap ''scale''))
       (toReal q (value_of variantMap ''offsetx''))
       (toReal q (value_of variantMap ''offsety''))"
| "toRTBMapObject q variantMap CameraTrigger =
     RTBCameraTrigger (sentinelTarget (toString q (value_of variantMap ''cameratarget'')))
       (of_int (toInt (value_of variantMap ''cameratriggerzonewidth'')),
        of_int (toInt (value_of variantMap ''cameratriggerzoneheight'')))
       (toInt (value_of variantMap ''cameraheight''))
       (toInt (value_of variantMap ''cameraangle''))"
| "toRTBMapObject q variantMap NPCBallSpawner =
     RTBNPCBallSpawner (toInt (value_of variantMap ''spawnclass''))
       (toInt (value_of variantMap ''size''))
       (toInt (value_of variantMap ''intervaloffset''))
       (toInt (value_of variantMap ''spawnfrequency''))
       (toInt (value_of variantMap ''speed''))
       (toInt (value_of variantMap ''direction''))"
| "toRTBMapObject q variantMap Target = RTBUnwritten Target"
| "toRTBMapObject q variantMap StartLocation = RTBUnwritten StartLocation"
| "toRTBMapObject q variantMap FinishHole = RTBUnwritten FinishHole"
| "toRTBMapObject q variantMap OtherObjectType = RTBUnwritten OtherObjectType"

text \<open>
  Modelled from the spec: the constructor of \<^verbatim>\<open>MapObject\<close> is outside this file; a new
  object is a visible rectangle with no cell, no points and no properties.
\<close>

definition newMapObject :: "string \<Rightarrow> string \<Rightarrow> real \<times> real \<Rightarrow> real \<times> real \<Rightarrow> mapObject" where
  "newMapObject name type pos sz =
     \<lparr>o_id = 0, o_name = name, o_type = type, o_pos = pos, o_width = fst sz, o_height = snd sz,
      o_rotation = 0, o_cell = EmptyCell, o_visible = True, o_properties = [],
      o_shape = Rectangle, o_polygon = [], o_rtbMapObject = None\<rparr>"

text \<open>The tile stamp of an object: the cell of its gid and the size taken from the tile.\<close>

definition stampCell :: "(int \<times> tileset) list \<Rightarrow> int \<Rightarrow> real \<Rightarrow> real \<Rightarrow> mapObject \<Rightarrow> mapObject" where
  "stampCell mapper gid width height object =
     (if gid \<noteq> 0 then
        (let o1 = object\<lparr>o_cell := gidToCell mapper (wrap_uint32 gid)\<rparr>
         in case cellTile mapper (o_cell o1) of
              None \<Rightarrow> o1
            | Some t \<Rightarrow>
                (let o2 = (if width = 0 then o1\<lparr>o_width := of_int (fst (t_size t))\<rparr> else o1)
                 in if height = 0 then o2\<lparr>o_height := of_int (snd (t_size t))\<rparr> else o2))
      else object)"

text \<open>The shape of an object: polygon, then polyline, then the ellipse marker.\<close>

definition applyShape :: "'a qt_env_scheme \<Rightarrow> variantMap \<Rightarrow> mapObject \<Rightarrow> mapObject" where
  "applyShape q objectVariantMap object =
     (let polylineVariant = value_of objectVariantMap ''polyline'';
          polygonVariant = value_of objectVariantMap ''polygon'';
          o1 = (if isValid polygonVariant
                then object\<lparr>o_shape := Polygon, o_polygon := toPolygon q polygonVariant\<rparr>
                else object);
          o2 = (if isValid polylineVariant
                then o1\<lparr>o_shape := Polyline, o_polygon := toPolygon q polylineVariant\<rparr>
                else o1)
      in if contains objectVariantMap ''ellipse'' then o2\<lparr>o_shape := Ellipse\<rparr> else o2)"

text \<open>The body of the loop over \<^verbatim>\<open>variantMap["objects"]\<close> in \<^verbatim>\<open>toObjectGroup\<close>.\<close>

definition toMapObject :: "'a env_scheme \<Rightarrow> converter \<Rightarrow> variant \<Rightarrow> mapObject" where
  "toMapObject e st objectVariant =
     (let objectVariantMap = toVariantMap objectVariant;
          name = toString e (value_of objectVariantMap ''name'');
          type = toString e (value_of objectVariantMap ''type'');
          ident = QString_toInt (toString e (value_of objectVariantMap ''id''));
          gid = toInt (value_of objectVariantMap ''gid'');
          x = toReal e (value_of objectVariantMap ''x'');
          y = toReal e (value_of objectVariantMap ''y'');
          width = toReal e (value_of objectVariantMap ''width'');
          height = toReal e (value_of objectVariantMap ''height'');
          rotation = toReal e (value_of objectVariantMap ''rotation'');
          o1 = (newMapObject name type (x, y) (width, height))\<lparr>o_id := ident, o_rotation := rotation\<rparr>;
          o2 = stampCell (mGidMapper st) gid width height o1;
          o3 = (if contains objectVariantMap ''visible''
                then o2\<lparr>o_visible := toBool (value_of objectVariantMap ''visible'')\<rparr>
                else o2);
          o4 = o3\<lparr>o_properties := toProperties e (value_of objectVariantMap ''properties'')\<rparr>;
          o5 = applyShape e objectVariantMap o4
      in o5\<lparr>o_rtbMapObject := Some (toRTBMapObject e objectVariantMap (rtbObjectTypeOf e o5))\<rparr>)"

subsection \<open>Layers\<close>

text \<open>
  Modelled from the spec: the layer classes are outside this file. A new layer is opaque
  and visible; a new object group draws top-down; a tile layer holds width times height
  cells in row-major order, all empty at first, and \<^verbatim>\<open>setCell\<close> is defined inside the
  layer only.
\<close>

definition newObjectGroup :: "string \<Rightarrow> int \<Rightarrow> int \<Rightarrow> int \<Rightarrow> int \<Rightarrow> objectGroup" where
  "newObjectGroup name x y width height =
     \<lparr>l_name = name, l_x = x, l_y = y, l_width = width, l_height = height, l_opacity = 1,
      l_visible = True, l_properties = [], objects = [], color = InvalidColor,
      drawOrder = TopDownOrder\<rparr>"

definition newImageLayer :: "string \<Rightarrow> int \<Rightarrow> int \<Rightarrow> int \<Rightarrow> int \<Rightarrow> imageLayer" where
  "newImageLayer name x y width height =
     \<lparr>l_name = name, l_x = x, l_y = y, l_width = width, l_height = height, l_opacity = 1,
      l_visible = True, l_properties = [], il_transparentColor = InvalidColor,
      il_imageSource = []\<rparr>"

definition newTileLayer :: "string \<Rightarrow> int \<Rightarrow> int \<Rightarrow> int \<Rightarrow> int \<Rightarrow> tileLayer" where
  "newTileLayer name x y width height =
     \<lparr>l_name = name, l_x = x, l_y = y, l_width = width, l_height = height, l_opacity = 1,
      l_visible = True, l_properties = [],
      grid = replicate (nat (wrap_int32 (width * height))) EmptyCell\<rparr>"

definition setCell :: "tileLayer \<Rightarrow> int \<Rightarrow> int \<Rightarrow> cell \<Rightarrow> tileLayer option" where
  "setCell ly x y c =
     (if 0 \<le> x \<and> x < l_width ly \<and> 0 \<le> y \<and> y < l_height ly
      then Some (ly\<lparr>grid := (grid ly)[nat (x + y * l_width ly) := c]\<rparr>)
      else None)"

definition cellAt :: "tileLayer \<Rightarrow> int \<Rightarrow> int \<Rightarrow> cell" where
  "cellAt ly x y = grid ly ! nat (x + y * l_width ly)"

text \<open>The loop over the data list in \<^verbatim>\<open>toTileLayer\<close>, with its counters \<open>x\<close> and \<open>y\<close>.\<close>

fun fillCells :: "converter \<Rightarrow> tileLayer \<Rightarrow> int \<Rightarrow> int \<Rightarrow> variant list \<Rightarrow> tileLayer built \<times> converter" where
  "fillCells st ly x y [] = (Built ly, st)"
| "fillCells st ly x y (gidVariant # rest) =
     (case toUInt_ok gidVariant of
        None \<Rightarrow>
          (Null, st\<lparr>mError := ''Unable to parse tile at ('' @ QString_number x @ '','' @
                     QString_number y @ '') on layer '' @ quoted (l_name ly)\<rparr>)
      | Some gid \<Rightarrow>
          (case setCell ly x y (gidToCell (mGidMapper st) gid) of
             None \<Rightarrow> (OutOfContract, st)
           | Some ly' \<Rightarrow>
               if x + 1 \<ge> l_width ly' then fillCells st ly' 0 (y + 1) rest
               else fillCells st ly' (x + 1) y rest))"

definition toTileLayer :: "'a env_scheme \<Rightarrow> converter \<Rightarrow> variantMap \<Rightarrow> tileLayer built \<times> converter" where
  "toTileLayer e st variantMap =
     (let name = toString e (value_of variantMap ''name'');
          width = toInt (value_of variantMap ''width'');
          height = toInt (value_of variantMap ''height'');
          dataVariantList = toList (value_of variantMap ''data'')
      in if int (length dataVariantList) \<noteq> wrap_int32 (width * height)
         then (Null, st\<lparr>mError := ''Corrupt layer data for layer '' @ quoted name\<rparr>)
         else
           (let tileLayer = (newTileLayer name (toInt (value_of variantMap ''x''))
                               (toInt (value_of variantMap ''y'')) width height)
                             \<lparr>l_opacity := toReal e (value_of variantMap ''opacity''),
                              l_visible := toBool (value_of variantMap ''visible'')\<rparr>
            in fillCells st tileLayer 0 0 dataVariantList))"

definition toObjectGroup :: "'a env_scheme \<Rightarrow> converter \<Rightarrow> variantMap \<Rightarrow> objectGroup built \<times> converter" where
  "toObjectGroup e st variantMap =
     (let og1 = (newObjectGroup (toString e (value_of variantMap ''name''))
                   (toInt (value_of variantMap ''x'')) (toInt (value_of variantMap ''y''))
                   (toInt (value_of variantMap ''width'')) (toInt (value_of variantMap ''height'')))
                 \<lparr>l_opacity := toReal e (value_of variantMap ''opacity''),
                  l_visible := toBool (value_of variantMap ''visible''),
                  color := toColor e (value_of variantMap ''color'')\<rparr>;
          drawOrderString = toString e (value_of variantMap ''draworder'');
          og2 = (if drawOrderString \<noteq> []
                 then og1\<lparr>drawOrder := drawOrderFromString e drawOrderString\<rparr>
                 else og1)
      in if drawOrderString \<noteq> [] \<and> drawOrder og2 = UnknownOrder
         then (Null, st\<lparr>mError := ''Invalid draw order: '' @ drawOrderString\<rparr>)
         else (Built (og2\<lparr>objects := map (toMapObject e st)
                                         (toList (value_of variantMap ''objects''))\<rparr>), st))"

text \<open>
  \<^verbatim>\<open>toImageLayer\<close> wraps the text of the image field in a variant again; that variant is
  null exactly when the text is a null string, which is what \<^verbatim>\<open>toString\<close> gives for a
  value that is no scalar.
\<close>

fun isScalar :: "variant \<Rightarrow> bool" where
  "isScalar Invalid = False"
| "isScalar (VList xs) = False"
| "isScalar (VMap m) = False"
| "isScalar _ = True"

definition toImageLayer :: "'a env_scheme \<Rightarrow> converter \<Rightarrow> variantMap \<Rightarrow> imageLayer built \<times> converter" where
  "toImageLayer e st variantMap =
     (let il1 = (newImageLayer (toString e (value_of variantMap ''name''))
                   (toInt (value_of variantMap ''x'')) (toInt (value_of variantMap ''y''))
                   (toInt (value_of variantMap ''width'')) (toInt (value_of variantMap ''height'')))
                 \<lparr>l_opacity := toReal e (value_of variantMap ''opacity''),
                  l_visible := toBool (value_of variantMap ''visible'')\<rparr>;
          trans = toString e (value_of variantMap ''transparentcolor'');
          il2 = (if trans \<noteq> [] \<and> isValidColor e trans
                 then il1\<lparr>il_transparentColor := NamedColor trans\<rparr> else il1)
      in if isScalar (value_of variantMap ''image'') then
           (let imagePath = resolvePath e (mMapDir st)
                              (VString (toString e (value_of variantMap ''image'')))
            in if imageSize e imagePath = None
               then (Null, st\<lparr>mError := ''Error loading image:'' @ [newline] @ quoted imagePath\<rparr>)
               else (Built (il2\<lparr>il_imageSource := imagePath\<rparr>), st))
         else (Built il2, st))"

fun withLayer :: "('a \<Rightarrow> anyLayer) \<Rightarrow> 'a built \<times> converter \<Rightarrow> anyLayer built \<times> converter" where
  "withLayer f (Built l, st) = (Built (f l), st)"
| "withLayer f (Null, st) = (Null, st)"
| "withLayer f (OutOfContract, st) = (OutOfContract, st)"

definition toLayer :: "'a env_scheme \<Rightarrow> converter \<Rightarrow> variant \<Rightarrow> anyLayer built \<times> converter" where
  "toLayer e st variant =
     (let variantMap = toVariantMap variant;
          props = toProperties e (value_of variantMap ''properties'')
      in if equals_text e (value_of variantMap ''type'') ''tilelayer'' then
           withLayer (\<lambda>l. ATileLayer (l\<lparr>l_properties := props\<rparr>)) (toTileLayer e st variantMap)
         else if equals_text e (value_of variantMap ''type'') ''objectgroup'' then
           withLayer (\<lambda>l. AnObjectGroup (l\<lparr>l_properties := props\<rparr>)) (toObjectGroup e st variantMap)
         else if equals_text e (value_of variantMap ''type'') ''imagelayer'' then
           withLayer (\<lambda>l. AnImageLayer (l\<lparr>l_properties := props\<rparr>)) (toImageLayer e st variantMap)
         else (Null, st))"

subsection \<open>Tilesets\<close>

definition floorImagePath :: string where
  "floorImagePath = '':/rtb_resources/tileset/Floor.png''"

definition newTileset :: "string \<Rightarrow> int \<Rightarrow> int \<Rightarrow> int \<Rightarrow> int \<Rightarrow> tileset" where
  "newTileset name tileWidth tileHeight spacing margin =
     \<lparr>ts_name = name, ts_tileWidth = tileWidth, ts_tileHeight = tileHeight,
      ts_spacing = spacing, ts_margin = margin, ts_tileOffset = (0, 0),
      ts_transparentColor = InvalidColor, ts_imageSource = [], ts_terrains = [],
      ts_tiles = [], ts_properties = []\<rparr>"

text \<open>
  The first part of \<^verbatim>\<open>toTileset\<close>, up to the terrains: the parameter check, the new
  tileset, the shared image, the properties and the terrain list. The message is the one
  left in \<^verbatim>\<open>mError\<close> when the part returns a null tileset.
\<close>

definition tilesetHeader :: "'a env_scheme \<Rightarrow> variantMap \<Rightarrow> string + tileset" where
  "tilesetHeader e variantMap =
     (let firstGid = toInt (value_of variantMap ''firstgid'');
          name = toString e (value_of variantMap ''name'');
          tileWidth = toInt (value_of variantMap ''tilewidth'');
          tileHeight = toInt (value_of variantMap ''tileheight'');
          spacing = toInt (value_of variantMap ''spacing'');
          margin = toInt (value_of variantMap ''margin'');
          tileOffset = toVariantMap (value_of variantMap ''tileoffset'');
          tileOffsetX = toInt (value_of tileOffset ''x'');
          tileOffsetY = toInt (value_of tileOffset ''y'')
      in if tileWidth \<le> 0 \<or> tileHeight \<le> 0 \<or> firstGid = 0
         then Inl (''Invalid tileset parameters for tileset '' @ quoted name)
         else
           (let ts1 = (newTileset name tileWidth tileHeight spacing margin)
                        \<lparr>ts_tileOffset := (tileOffsetX, tileOffsetY)\<rparr>;
                trans = toString e (value_of variantMap ''transparentcolor'');
                ts2 = (if trans \<noteq> [] \<and> isValidColor e trans
                       then ts1\<lparr>ts_transparentColor := NamedColor trans\<rparr> else ts1);
                loaded = (if \<not> isNull (value_of variantMap ''image'')
                          then tilesetLoadFromImage e floorImagePath ts2
                          else Some ts2)
            in case loaded of
                 None \<Rightarrow> Inl (''Error loading tileset image:'' @ [newline] @ quoted floorImagePath)
               | Some ts3 \<Rightarrow>
                   Inr (ts3\<lparr>ts_properties := toProperties e (value_of variantMap ''properties''),
                             ts_terrains := ts_terrains ts3 @
                               map (\<lambda>terrain.
                                      let terrainMap = toVariantMap terrain
                                      in (toString e (value_of terrainMap ''name''),
                                          toInt (value_of terrainMap ''tile'')))
                                   (toList (value_of variantMap ''terrains''))\<rparr>)))"

text \<open>\<^verbatim>\<open>for (int i = tileset->tileCount(); i <= tileIndex; i++) tileset->addTile(QPixmap());\<close>\<close>

function addTilesUpTo :: "tileset \<Rightarrow> int \<Rightarrow> int \<Rightarrow> tileset" where
  "addTilesUpTo ts i tileIndex =
     (if i \<le> tileIndex then addTilesUpTo (addTile ts) (i + 1) tileIndex else ts)"
  by pat_completeness auto
termination
  by (relation "measure (\<lambda>(ts, i, tileIndex). nat (tileIndex + 1 - i))") auto

declare addTilesUpTo.simps [simp del]

text \<open>The four corner terrains of a tile, read from a list of four entries.\<close>

definition setCornerTerrains :: "int \<Rightarrow> variant list \<Rightarrow> int list \<Rightarrow> int list" where
  "setCornerTerrains terrainCount terrains corners =
     fold (\<lambda>i cs. case toInt_ok (terrains ! i) of
                     None \<Rightarrow> cs
                   | Some terrainId \<Rightarrow>
                       if 0 \<le> terrainId \<and> terrainId < terrainCount then cs[i := terrainId] else cs)
          [0, 1, 2, 3] corners"

text \<open>Modelled from the spec: the size of \<^verbatim>\<open>QPixmap(path)\<close>, empty when the file does not decode.\<close>

definition pixmapSize :: "'a qt_env_scheme \<Rightarrow> string \<Rightarrow> int \<times> int" where
  "pixmapSize q path = (case imageSize q path of None \<Rightarrow> (0, 0) | Some sz \<Rightarrow> sz)"

text \<open>The overrides of one tile: the block under \<^verbatim>\<open>if (tile)\<close>.\<close>

definition overrideTile :: "'a env_scheme \<Rightarrow> converter \<Rightarrow> int \<Rightarrow> variant \<Rightarrow> tile \<Rightarrow> tile \<times> converter" where
  "overrideTile e st terrainCount tileVariant t0 =
     (let tileVar = toVariantMap tileVariant;
          terrains = toList (value_of tileVar ''terrain'');
          t1 = (if length terrains = 4
                then t0\<lparr>t_terrain := setCornerTerrains terrainCount terrains (t_terrain t0)\<rparr>
                else t0);
          t2 = (case toReal_ok e (value_of tileVar ''probability'') of
                  None \<Rightarrow> t1
                | Some p \<Rightarrow> t1\<lparr>t_terrainProbability := Some p\<rparr>);
          imageVariant = value_of tileVar ''image'';
          t3 = (if \<not> isNull imageVariant
                then (let imagePath = resolvePath e (mMapDir st) imageVariant
                      in t2\<lparr>t_size := pixmapSize e imagePath, t_imageSource := imagePath\<rparr>)
                else t2);
          objectGroupVariant = toVariantMap (value_of tileVar ''objectgroup'');
          grouped = (if objectGroupVariant \<noteq> []
                     then (case toObjectGroup e st objectGroupVariant of
                             (Built og, st') \<Rightarrow> (t3\<lparr>t_objectGroup := Some og\<rparr>, st')
                           | (_, st') \<Rightarrow> (t3\<lparr>t_objectGroup := None\<rparr>, st'))
                     else (t3, st));
          frameList = toList (value_of tileVar ''animation'');
          frames = map (\<lambda>frame. let frameVariantMap = toVariantMap frame
                                 in (toInt (value_of frameVariantMap ''tileid''),
                                     toInt (value_of frameVariantMap ''duration''))) frameList
      in if frameList \<noteq> [] then ((fst grouped)\<lparr>t_frames := frames\<rparr>, snd grouped) else grouped)"

text \<open>
  One round of the loop over \<^verbatim>\<open>variantMap["tiles"]\<close>; \<open>entries\<close> is
  \<^verbatim>\<open>tilesVariantMap.count()\<close>. After the message for a negative index the source goes on,
  to \<^verbatim>\<open>tileAt\<close> with that index.
\<close>

definition tileOverride :: "'a env_scheme \<Rightarrow> int \<Rightarrow> converter \<Rightarrow> tileset \<Rightarrow> string \<times> variant \<Rightarrow> tileset built \<times> converter" where
  "tileOverride e entries st ts entry =
     (let tileIndex = QString_toInt (fst entry);
          st1 = (if tileIndex < 0
                 then st\<lparr>mError := ''Tileset tile index negative:'' @ [newline] @
                                     quoted (QString_number tileIndex)\<rparr>
                 else st)
      in if tileIndex \<ge> tileCount ts \<and> tileIndex \<ge> entries
         then (Null, st1\<lparr>mError := ''Tileset tile index too high:'' @ [newline] @
                                     quoted (QString_number tileIndex)\<rparr>)
         else
           (let ts1 = (if tileIndex \<ge> tileCount ts then addTilesUpTo ts (tileCount ts) tileIndex else ts)
            in if tileIndex < 0 then (OutOfContract, st1)
               else case tileAt ts1 tileIndex of
                      None \<Rightarrow> (Built ts1, st1)
                    | Some t0 \<Rightarrow>
                        (let r = overrideTile e st1 (int (length (ts_terrains ts1))) (snd entry) t0
                         in (Built (ts1\<lparr>ts_tiles := (ts_tiles ts1)[nat tileIndex := fst r]\<rparr>), snd r))))"

fun tileOverrides :: "'a env_scheme \<Rightarrow> int \<Rightarrow> converter \<Rightarrow> tileset \<Rightarrow> (string \<times> variant) list \<Rightarrow> tileset built \<times> converter" where
  "tileOverrides e entries st ts [] = (Built ts, st)"
| "tileOverrides e entries st ts (entry # rest) =
     (case tileOverride e entries st ts entry of
        (Built ts', st') \<Rightarrow> tileOverrides e entries st' ts' rest
      | (Null, st') \<Rightarrow> (Null, st')
      | (OutOfContract, st') \<Rightarrow> (OutOfContract, st'))"

text \<open>The loop over \<^verbatim>\<open>variantMap["tileproperties"]\<close>.\<close>

definition tileProperty :: "'a qt_env_scheme \<Rightarrow> string \<times> variant \<Rightarrow> tileset \<Rightarrow> tileset" where
  "tileProperty q entry ts =
     (let tileIndex = QString_toInt (fst entry)
      in if tileIndex \<ge> 0 \<and> tileIndex < tileCount ts
         then ts\<lparr>ts_tiles := (ts_tiles ts)
                   [nat tileIndex := (ts_tiles ts ! nat tileIndex)
                                       \<lparr>t_properties := toProperties q (snd entry)\<rparr>]\<rparr>
         else ts)"

definition toTileset :: "'a env_scheme \<Rightarrow> converter \<Rightarrow> variant \<Rightarrow> tileset built \<times> converter" where
  "toTileset e st variant =
     (let variantMap = toVariantMap variant
      in case tilesetHeader e variantMap of
           Inl message \<Rightarrow> (Null, st\<lparr>mError := message\<rparr>)
         | Inr ts \<Rightarrow>
             (let tilesVariantMap = toVariantMap (value_of variantMap ''tiles'')
              in case tileOverrides e (int (length tilesVariantMap)) st ts tilesVariantMap of
                   (Built ts1, st1) \<Rightarrow>
                     (let ts2 = fold (tileProperty e)
                                  (toVariantMap (value_of variantMap ''tileproperties'')) ts1
                      in (Built ts2,
                          st1\<lparr>mGidMapper := gidInsert (mGidMapper st1)
                                (wrap_uint32 (toInt (value_of variantMap ''firstgid''))) ts2\<rparr>))
                 | (Null, st1) \<Rightarrow> (Null, st1)
                 | (OutOfContract, st1) \<Rightarrow> (OutOfContract, st1)))"

subsection \<open>The map\<close>

text \<open>
  Modelled from the spec: \<^verbatim>\<open>orientationFromString\<close> is outside this file; the four
  orientations have their lower-case names and every other text is \<open>Unknown\<close>.
\<close>

datatype orientation = Unknown | Orthogonal | Isometric | Staggered | Hexagonal

definition orientationFromString :: "string \<Rightarrow> orientation" where
  "orientationFromString s =
     (if s = ''orthogonal'' then Orthogonal
      else if s = ''isometric'' then Isometric
      else if s = ''staggered'' then Staggered
      else if s = ''hexagonal'' then Hexagonal
      else Unknown)"

record rtbMap =
  hasError :: int
  customGlowColor :: qcolor
  customBackgroundColor :: qcolor
  levelBrightness :: real
  cloudDensity :: real
  cloudVelocity :: real
  cloudAlpha :: real
  snowDensity :: real
  snowVelocity :: real
  snowRisingVelocity :: real
  cameraGrain :: real
  cameraContrast :: real
  cameraSaturation :: real
  cameraGlow :: real
  hasWall :: int
  levelName :: string
  levelDescription :: string
  backgroundColorScheme :: int
  glowColorScheme :: int
  mapChapter :: int
  hasStarfield :: int
  difficulty :: int
  playStyle :: int
  workShopId :: int
  previewImagePath :: string

definition namedColorOr :: "'a qt_env_scheme \<Rightarrow> string \<Rightarrow> qcolor \<Rightarrow> qcolor" where
  "namedColorOr q name old = (if name \<noteq> [] \<and> isValidColor q name then NamedColor name else old)"

text \<open>
  \<^verbatim>\<open>toRTBMap\<close>. The two colours are written only when the text names a colour; the colour
  a new \<^verbatim>\<open>RTBMap\<close> starts with is set outside this file and stands as \<open>InvalidColor\<close> here.
\<close>

definition toRTBMap :: "'a qt_env_scheme \<Rightarrow> variantMap \<Rightarrow> rtbMap" where
  "toRTBMap q variantMap =
     \<lparr>hasError = toInt (value_of variantMap ''haserror''),
      customGlowColor =
        namedColorOr q (toString q (value_of variantMap ''customglowcolor'')) InvalidColor,
      customBackgroundColor =
        namedColorOr q (toString q (value_of variantMap ''custombackgroundcolor'')) InvalidColor,
      levelBrightness = toReal q (value_of variantMap ''levelbrightness''),
      cloudDensity = toReal q (value_of variantMap ''clouddensity''),
      cloudVelocity = toReal q (value_of variantMap ''cloudvelocity''),
      cloudAlpha = toReal q (value_of variantMap ''cloudalpha''),
      snowDensity = toReal q (value_of variantMap ''snowdensity''),
      snowVelocity = toReal q (value_of variantMap ''snowvelocity''),
      snowRisingVelocity = toReal q (value_of variantMap ''snowrisingvelocity''),
      cameraGrain = toReal q (value_of variantMap ''cameragrain''),
      cameraContrast = toReal q (value_of variantMap ''cameracontrast''),
      cameraSaturation = toReal q (value_of variantMap ''camerasaturation''),
      cameraGlow = toReal q (value_of variantMap ''cameraglow''),
      hasWall = toInt (value_of variantMap ''haswalls''),
      levelName = toString q (value_of variantMap ''levelname''),
      levelDescription = toString q (value_of variantMap ''leveldescription''),
      backgroundColorScheme = toInt (value_of variantMap ''backgroundcolorscheme''),
      glowColorScheme = toInt (value_of variantMap ''glowcolorscheme''),
      mapChapter = toInt (value_of variantMap ''chapter''),
      hasStarfield = toInt (value_of variantMap ''hasstarfield''),
      difficulty = toInt (value_of variantMap ''difficulty''),
      playStyle = toInt (value_of variantMap ''playstyle''),
      workShopId = toInt (value_of variantMap ''workshopid''),
      previewImagePath = toString q (value_of variantMap ''previewimagepath'')\<rparr>"

record tiledMap =
  m_orientation :: orientation
  m_width :: int
  m_height :: int
  m_tileWidth :: int
  m_tileHeight :: int
  m_hexSideLength :: int
  m_staggerAxis :: nat
  m_staggerIndex :: nat
  m_renderOrder :: nat
  m_rtbMap :: rtbMap
  m_nextObjectId :: int
  m_properties :: properties
  m_backgroundColor :: qcolor
  m_tilesets :: "tileset list"
  m_layers :: "anyLayer list"

text \<open>The two loops of \<^verbatim>\<open>toMap\<close>: each stops at the first null entity.\<close>

fun toTilesets :: "'a env_scheme \<Rightarrow> converter \<Rightarrow> variant list \<Rightarrow> tileset list built \<times> converter" where
  "toTilesets e st [] = (Built [], st)"
| "toTilesets e st (tilesetVariant # rest) =
     (case toTileset e st tilesetVariant of
        (Built ts, st1) \<Rightarrow>
          (case toTilesets e st1 rest of
             (Built tss, st2) \<Rightarrow> (Built (ts # tss), st2)
           | (Null, st2) \<Rightarrow> (Null, st2)
           | (OutOfContract, st2) \<Rightarrow> (OutOfContract, st2))
      | (Null, st1) \<Rightarrow> (Null, st1)
      | (OutOfContract, st1) \<Rightarrow> (OutOfContract, st1))"

fun toLayers :: "'a env_scheme \<Rightarrow> converter \<Rightarrow> variant list \<Rightarrow> anyLayer list built \<times> converter" where
  "toLayers e st [] = (Built [], st)"
| "toLayers e st (layerVariant # rest) =
     (case toLayer e st layerVariant of
        (Built l, st1) \<Rightarrow>
          (case toLayers e st1 rest of
             (Built ls, st2) \<Rightarrow> (Built (l # ls), st2)
           | (Null, st2) \<Rightarrow> (Null, st2)
           | (OutOfContract, st2) \<Rightarrow> (OutOfContract, st2))
      | (Null, st1) \<Rightarrow> (Null, st1)
      | (OutOfContract, st1) \<Rightarrow> (OutOfContract, st1))"

text \<open>
  \<^verbatim>\<open>toMap\<close>. The converter keeps the value \<^verbatim>\<open>mError\<close> had before the call until a builder
  writes a message. Modelled from the spec: \<^verbatim>\<open>Map\<close> is outside this file; a new map has no
  background colour, counts its object ids from 1, and \<^verbatim>\<open>addTileset\<close> and \<^verbatim>\<open>addLayer\<close>
  append to its two sequences.
\<close>

definition toMap :: "'a env_scheme \<Rightarrow> converter \<Rightarrow> variant \<Rightarrow> string \<Rightarrow> tiledMap built \<times> converter" where
  "toMap e st0 variant mapDir =
     (let st = st0\<lparr>mGidMapper := [], mMapDir := mapDir\<rparr>;
          variantMap = toVariantMap variant;
          orientationString = toString e (value_of variantMap ''orientation'')
      in if orientationFromString orientationString = Unknown
         then (Null, st\<lparr>mError := ''Unsupported map orientation: '' @ [dquote] @
                                    orientationString @ [dquote]\<rparr>)
         else
           (let nextObjectId = QString_toInt (toString e (value_of variantMap ''nextobjectid''));
                map1 = \<lparr>m_orientation = orientationFromString orientationString,
                        m_width = toInt (value_of variantMap ''width''),
                        m_height = toInt (value_of variantMap ''height''),
                        m_tileWidth = toInt (value_of variantMap ''tilewidth''),
                        m_tileHeight = toInt (value_of variantMap ''tileheight''),
                        m_hexSideLength = toInt (value_of variantMap ''hexsidelength''),
                        m_staggerAxis =
                          staggerAxisFromString e (toString e (value_of variantMap ''staggeraxis'')),
                        m_staggerIndex =
                          staggerIndexFromString e (toString e (value_of variantMap ''staggerindex'')),
                        m_renderOrder =
                          renderOrderFromString e (toString e (value_of variantMap ''renderorder'')),
                        m_rtbMap = toRTBMap e variantMap,
                        m_nextObjectId = (if nextObjectId \<noteq> 0 then nextObjectId else 1),
                        m_properties = toProperties e (value_of variantMap ''properties''),
                        m_backgroundColor =
                          namedColorOr e (toString e (value_of variantMap ''backgroundcolor''))
                            InvalidColor,
                        m_tilesets = [], m_layers = []\<rparr>
            in case toTilesets e st (toList (value_of variantMap ''tilesets'')) of
                 (Built tss, st1) \<Rightarrow>
                   (case toLayers e st1 (toList (value_of variantMap ''layers'')) of
                      (Built ls, st2) \<Rightarrow> (Built (map1\<lparr>m_tilesets := tss, m_layers := ls\<rparr>), st2)
                    | (Null, st2) \<Rightarrow> (Null, st2)
                    | (OutOfContract, st2) \<Rightarrow> (OutOfContract, st2))
               | (Null, st1) \<Rightarrow> (Null, st1)
               | (OutOfContract, st1) \<Rightarrow> (OutOfContract, st1)))"

subsection \<open>A sample environment\<close>

text \<open>
  One implementation of what the converter calls outside itself, for running it: no text
  is a number with a fraction, every path is absolute, two images decode, and the tileset
  loader cuts a decoded image into tiles of the tileset's tile size, row by row.
\<close>

definition sampleImages :: "string \<Rightarrow> (int \<times> int) option" where
  "sampleImages path =
     (if path = floorImagePath then Some (32, 32)
      else if path = ''/maps/tiles.png'' then Some (64, 16)
      else None)"

definition sampleLoad :: "string \<Rightarrow> tileset \<Rightarrow> tileset option" where
  "sampleLoad path ts =
     (case sampleImages path of
        None \<Rightarrow> None
      | Some (w, h) \<Rightarrow>
          Some (ts\<lparr>ts_imageSource := path,
                   ts_tiles := map (\<lambda>i. (placeholderTile (int i))
                                           \<lparr>t_size := (ts_tileWidth ts, ts_tileHeight ts)\<rparr>)
                                   [0 ..< nat ((w div ts_tileWidth ts) * (h div ts_tileHeight ts))]\<rparr>))"

definition sampleEnv :: env where
  "sampleEnv =
     \<lparr>stringToDouble = (\<lambda>s. map_option of_int (parse_integer s)),
      doubleToString = (\<lambda>d. QString_number \<lfloor>d\<rfloor>),
      isValidColor = (\<lambda>s. s \<noteq> [] \<and> hd s = CHR ''#''),
      imageSize = sampleImages,
      isRelativePath = (\<lambda>s. s = [] \<or> hd s \<noteq> CHR ''/''),
      absoluteCleanPath = (\<lambda>dir s. dir @ ''/'' @ s),
      tilesetLoadFromImage = sampleLoad,
      rtbObjectTypeOf = (\<lambda>object. if o_type object = ''teleporter'' then Teleporter
                                   else if o_type object = ''cameratrigger'' then CameraTrigger
                                   else OtherObjectType),
      staggerAxisFromString = (\<lambda>s. if s = ''x'' then 0 else 1),
      staggerIndexFromString = (\<lambda>s. if s = ''even'' then 1 else 0),
      renderOrderFromString = (\<lambda>s. 0),
      drawOrderFromString = (\<lambda>s. if s = ''topdown'' then TopDownOrder
                                   else if s = ''index'' then IndexOrder else UnknownOrder)\<rparr>"

definition freshConverter :: converter where
  "freshConverter = \<lparr>mError = [], mGidMapper = [], mMapDir = []\<rparr>"

subsection \<open>Sample inputs\<close>

text \<open>
  Documents and records the converter is run on below: the scenario of one tileset (first
  global id 1, tiles of 16 by 16, four of them once the image is cut) and a tile layer of
  2 by 2 with the data 0, 1, 2, 5, and records with one irregular field each.
\<close>

fun layerVisible :: "anyLayer \<Rightarrow> bool" where
  "layerVisible (ATileLayer l) = l_visible l"
| "layerVisible (AnObjectGroup l) = l_visible l"
| "layerVisible (AnImageLayer l) = l_visible l"

fun builtValue :: "'a built \<Rightarrow> 'a option" where
  "builtValue (Built x) = Some x"
| "builtValue Null = None"
| "builtValue OutOfContract = None"

definition scenarioTileset :: variant where
  "scenarioTileset =
     VMap [(''firstgid'', VInt 1), (''image'', VString ''tiles.png''), (''name'', VString ''floor''),
           (''tileheight'', VInt 16), (''tilewidth'', VInt 16)]"

definition scenarioConverter :: converter where
  "scenarioConverter = snd (toTileset sampleEnv (freshConverter\<lparr>mMapDir := ''/maps''\<rparr>) scenarioTileset)"

definition scenarioLayer :: variantMap where
  "scenarioLayer =
     [(''data'', VList [VInt 0, VInt 1, VInt 2, VInt 5]), (''height'', VInt 2),
      (''name'', VString ''ground''), (''type'', VString ''tilelayer''), (''width'', VInt 2)]"

definition missingImageTileset :: variant where
  "missingImageTileset =
     VMap [(''firstgid'', VInt 1), (''image'', VString ''missing.png''), (''name'', VString ''walls''),
           (''tileheight'', VInt 16), (''tilewidth'', VInt 16)]"

definition noFloorEnv :: env where
  "noFloorEnv =
     sampleEnv\<lparr>tilesetLoadFromImage :=
                 (\<lambda>path ts. if path = ''/maps/tiles.png'' then sampleLoad path ts else None)\<rparr>"

definition scenarioDocument :: "(string \<times> variant) list" where
  "scenarioDocument =
     [(''height'', VInt 2), (''layers'', VList [VMap scenarioLayer]),
      (''orientation'', VString ''orthogonal''), (''tilesets'', VList [scenarioTileset]),
      (''width'', VInt 2)]"

definition unknownLayerDocument :: variant where
  "unknownLayerDocument =
     VMap [(''height'', VInt 2),
           (''layers'', VList [VMap [(''name'', VString ''fog''), (''type'', VString ''fogoverlay'')]]),
           (''orientation'', VString ''orthogonal''), (''width'', VInt 2)]"

definition negativeIndexTileset :: variant where
  "negativeIndexTileset =
     VMap [(''firstgid'', VInt 1), (''name'', VString ''props''), (''tileheight'', VInt 16),
           (''tiles'', VMap [(''-1'', VMap []), (''0'', VMap [])]), (''tilewidth'', VInt 16)]"

definition overflowLayer :: variantMap where
  "overflowLayer =
     [(''data'', VList []), (''height'', VInt 65536), (''name'', VString ''huge''),
      (''type'', VString ''tilelayer''), (''width'', VInt 65536)]"

definition negativeSizeLayer :: variantMap where
  "negativeSizeLayer =
     [(''data'', VList [VInt 1, VInt 1, VInt 1, VInt 1]), (''height'', VInt (- 2)),
      (''name'', VString ''inverted''), (''type'', VString ''tilelayer''),
      (''width'', VInt (- 2))]"

definition cappedTileset :: variant where
  "cappedTileset =
     VMap [(''firstgid'', VInt 1), (''name'', VString ''props''), (''tileheight'', VInt 16),
           (''tiles'', VMap [(''0'', VMap []), (''1'', VMap [])]), (''tilewidth'', VInt 16)]"

definition tooHighTileset :: variant where
  "tooHighTileset =
     VMap [(''firstgid'', VInt 1), (''name'', VString ''props''), (''tileheight'', VInt 16),
           (''tiles'', VMap [(''0'', VMap []), (''2000000000'', VMap [])]), (''tilewidth'', VInt 16)]"

definition stampGroup :: variantMap where
  "stampGroup =
     [(''name'', VString ''things''),
      (''objects'', VList
         [VMap [(''gid'', VInt 2), (''height'', VInt 0), (''width'', VInt 0)],
          VMap [(''gid'', VInt 2), (''height'', VInt 0), (''width'', VInt 5)],
          VMap [(''polygon'', VList [VMap [(''x'', VInt 0), (''y'', VInt 0)]]),
                (''polyline'', VList [VMap [(''x'', VInt 1), (''y'', VInt 2)],
                                      VMap [(''x'', VInt 3), (''y'', VInt 4)]])]]),
      (''type'', VString ''objectgroup'')]"

definition bareImageLayer :: variantMap where
  "bareImageLayer = [(''name'', VString ''sky''), (''type'', VString ''imagelayer'')]"

section \<open>Properties\<close>

subsection \<open>Evaluation and auxiliary facts\<close>

lemmas eval_defs =
  value_of_def contains_def isNull_def isValid_def toInt_def toReal_def wrap_int32_def
  wrap_uint32_def QString_toInt_def QString_toLongLong_def QString_toULongLong_def
  parse_integer_def trimmed_def is_space_def digit_value_def quoted_def
  toProperties_def toPolygon_def resolvePath_def sampleEnv_def freshConverter_def
  sampleImages_def sampleLoad_def floorImagePath_def

lemmas build_defs =
  toTileset_def tilesetHeader_def newTileset_def tileCount_def gidInsert_def
  placeholderTile_def toMap_def toLayer_def orientationFromString_def toRTBMap_def
  namedColorOr_def toTileLayer_def newTileLayer_def setCell_def gidToCell_def
  tileOverride_def tileAt_def addTile_def

lemma wrap_int32_id: "- 2147483648 \<le> i \<Longrightarrow> i < 2147483648 \<Longrightarrow> wrap_int32 i = i"
  by (simp add: wrap_int32_def)

lemma value_of_absent: "\<not> contains m k \<Longrightarrow> value_of m k = Invalid"
  by (simp add: contains_def value_of_def)

lemma fillCells_keeps_visible:
  "fillCells st ly x y gs = (Built ly', st') \<Longrightarrow> l_visible ly' = l_visible ly"
proof (induction gs arbitrary: ly x y)
  case Nil
  then show ?case by simp
next
  case (Cons g gs)
  then show ?case
    by (auto simp: setCell_def split: option.splits if_splits)
qed

lemma toTileLayer_visible:
  "toTileLayer e st vm = (Built ly, st') \<Longrightarrow> l_visible ly = toBool (value_of vm ''visible'')"
  by (auto simp: toTileLayer_def Let_def newTileLayer_def split: if_splits dest!: fillCells_keeps_visible)

lemma toObjectGroup_visible:
  "toObjectGroup e st vm = (Built og, st') \<Longrightarrow> l_visible og = toBool (value_of vm ''visible'')"
  by (auto simp: toObjectGroup_def Let_def newObjectGroup_def split: if_splits)

lemma toImageLayer_visible:
  "toImageLayer e st vm = (Built il, st') \<Longrightarrow> l_visible il = toBool (value_of vm ''visible'')"
  by (auto simp: toImageLayer_def Let_def newImageLayer_def split: if_splits)

lemma withLayer_Built:
  "withLayer f r = (Built l, st') \<Longrightarrow> \<exists>l0. r = (Built l0, st') \<and> l = f l0"
  by (cases "(f, r)" rule: withLayer.cases) auto

lemma toLayer_visible:
  "toLayer e st variant = (Built l, st') \<Longrightarrow>
   layerVisible l = toBool (value_of (toVariantMap variant) ''visible'')"
  by (auto simp: toLayer_def Let_def split: if_splits
      dest!: withLayer_Built dest: toTileLayer_visible toObjectGroup_visible toImageLayer_visible)

lemma toMapObject_visible:
  "o_visible (toMapObject e st objectVariant) =
     (if contains (toVariantMap objectVariant) ''visible''
      then toBool (value_of (toVariantMap objectVariant) ''visible'') else True)"
  by (simp add: toMapObject_def Let_def applyShape_def stampCell_def newMapObject_def
      split: option.splits)

lemma scenarioConverter_mapper:
  "mGidMapper scenarioConverter =
     [(1, \<lparr>ts_name = ''floor'', ts_tileWidth = 16, ts_tileHeight = 16, ts_spacing = 0,
           ts_margin = 0, ts_tileOffset = (0, 0), ts_transparentColor = InvalidColor,
           ts_imageSource = floorImagePath, ts_terrains = [],
           ts_tiles = map (\<lambda>i. (placeholderTile i)\<lparr>t_size := (16, 16)\<rparr>) [0, 1, 2, 3],
           ts_properties = []\<rparr>)]"
  by (simp add: scenarioConverter_def scenarioTileset_def build_defs eval_defs Let_def upt_rec)

lemma scenario_cells:
  "gidToCell (mGidMapper scenarioConverter) 0 = EmptyCell"
  "gidToCell (mGidMapper scenarioConverter) 1 = TileCell 1 0"
  "gidToCell (mGidMapper scenarioConverter) 2 = TileCell 1 1"
  "gidToCell (mGidMapper scenarioConverter) 5 = EmptyCell"
  by (simp_all add: scenarioConverter_mapper gidToCell_def tileCount_def)

lemma scenarioLayer_built:
  "\<exists>ly. toTileLayer sampleEnv scenarioConverter scenarioLayer = (Built ly, scenarioConverter)"
  by (simp add: toTileLayer_def newTileLayer_def setCell_def Let_def scenarioLayer_def
      eval_defs scenario_cells)

lemma stampGroup_built:
  "\<exists>og. toObjectGroup sampleEnv scenarioConverter stampGroup = (Built og, scenarioConverter)"
  by (simp add: toObjectGroup_def Let_def stampGroup_def eval_defs)

lemma scenario_tile:
  "cellTile (mGidMapper scenarioConverter) (TileCell 1 1) = Some ((placeholderTile 1)\<lparr>t_size := (16, 16)\<rparr>)"
  by (simp add: scenarioConverter_mapper tileAt_def tileCount_def)

subsection \<open>The shared image of a tileset\<close>

lemma tilesetHeader_load_fails:
  assumes "\<not> isNull (value_of vm ''image'')"
    and "\<forall>ts0. tilesetLoadFromImage e floorImagePath ts0 = None"
  shows "\<exists>message. tilesetHeader e vm = Inl message"
    and "0 < toInt (value_of vm ''tilewidth'') \<Longrightarrow> 0 < toInt (value_of vm ''tileheight'') \<Longrightarrow>
         toInt (value_of vm ''firstgid'') \<noteq> 0 \<Longrightarrow>
         tilesetHeader e vm = Inl (''Error loading tileset image:'' @ [newline] @ quoted floorImagePath)"
  using assms by (simp_all add: tilesetHeader_def Let_def)

lemma toTilesets_stops:
  "toTilesets e st pre = (Built tss, st1) \<Longrightarrow> toTileset e st1 v = (Null, st2) \<Longrightarrow>
   toTilesets e st (pre @ v # post) = (Null, st2)"
proof (induction pre arbitrary: st tss)
  case Nil
  then show ?case by simp
next
  case (Cons a pre)
  then obtain ts sta tss' where a: "toTileset e st a = (Built ts, sta)"
    and r: "toTilesets e sta pre = (Built tss', st1)"
    by (auto split: prod.splits built.splits)
  have "toTilesets e sta (pre @ v # post) = (Null, st2)" using Cons.IH r Cons.prems(2) by blast
  then show ?case using a by simp
qed

lemma toMap_tileset_Null:
  assumes "orientationFromString (toString e (value_of doc ''orientation'')) \<noteq> Unknown"
    and "toTilesets e (st0\<lparr>mGidMapper := [], mMapDir := dir\<rparr>) (toList (value_of doc ''tilesets'')) = (Null, st2)"
  shows "toMap e st0 (VMap doc) dir = (Null, st2)"
  using assms by (simp add: toMap_def Let_def)

lemma tilesetHeader_loaded:
  assumes "\<not> isNull (value_of vm ''image'')" and "tilesetHeader e vm = Inr ts"
  shows "\<exists>ts0 ts1. tilesetLoadFromImage e floorImagePath ts0 = Some ts1 \<and>
           ts_tiles ts = ts_tiles ts1 \<and> ts_imageSource ts = ts_imageSource ts1"
  using assms by (auto simp: tilesetHeader_def Let_def split: if_splits option.splits; blast)

text \<open>
  C1, as stated: the tileset builder loads the shared image from the path in the record,
  resolved against the directory of the document, and fails when that image does not
  decode. It does not hold: the record below names an image that does not decode, and the
  builder returns a tileset cut from the fixed resource image and writes no message.
\<close>

theorem tileset_image_path_counterexample:
  "imageSize sampleEnv (resolvePath sampleEnv ''/maps'' (value_of (toVariantMap missingImageTileset) ''image'')) = None \<and>
   tilesetLoadFromImage sampleEnv (resolvePath sampleEnv ''/maps'' (value_of (toVariantMap missingImageTileset) ''image''))
     (newTileset ''walls'' 16 16 0 0) = None \<and>
   map_option ts_imageSource
     (builtValue (fst (toTileset sampleEnv (freshConverter\<lparr>mMapDir := ''/maps''\<rparr>) missingImageTileset))) =
     Some floorImagePath \<and>
   map_option tileCount
     (builtValue (fst (toTileset sampleEnv (freshConverter\<lparr>mMapDir := ''/maps''\<rparr>) missingImageTileset))) =
     Some 4 \<and>
   mError (snd (toTileset sampleEnv (freshConverter\<lparr>mMapDir := ''/maps''\<rparr>) missingImageTileset)) = []"
  by (simp add: missingImageTileset_def build_defs eval_defs Let_def)

text \<open>
  C1, as amended: for a tileset record with an image field and valid parameters, the image
  the builder loads is the fixed resource \<^verbatim>\<open>:/rtb_resources/tileset/Floor.png\<close>, whatever
  path the record gives; when that image does not load, the builder returns a null tileset
  with the message "Error loading tileset image" and the conversion of a document that
  reaches this record returns null with that message.
\<close>

theorem tileset_image_is_fixed_resource:
  assumes "\<not> isNull (value_of vm ''image'')"
    and "0 < toInt (value_of vm ''tilewidth'')" and "0 < toInt (value_of vm ''tileheight'')"
    and "toInt (value_of vm ''firstgid'') \<noteq> 0"
    and "message = ''Error loading tileset image:'' @ [newline] @ quoted floorImagePath"
  shows "(\<forall>ts. tilesetHeader e vm = Inr ts \<longrightarrow>
            (\<exists>ts0 ts1. tilesetLoadFromImage e floorImagePath ts0 = Some ts1 \<and>
               ts_tiles ts = ts_tiles ts1 \<and> ts_imageSource ts = ts_imageSource ts1)) \<and>
         ((\<forall>ts0. tilesetLoadFromImage e floorImagePath ts0 = None) \<longrightarrow>
            toTileset e st (VMap vm) = (Null, st\<lparr>mError := message\<rparr>) \<and>
            (\<forall>doc st0 dir pre post tss.
               orientationFromString (toString e (value_of doc ''orientation'')) \<noteq> Unknown \<and>
               toList (value_of doc ''tilesets'') = pre @ VMap vm # post \<and>
               toTilesets e (st0\<lparr>mGidMapper := [], mMapDir := dir\<rparr>) pre = (Built tss, st) \<longrightarrow>
               toMap e st0 (VMap doc) dir = (Null, st\<lparr>mError := message\<rparr>)))"
proof -
  have zero: "\<forall>ts. tilesetHeader e vm = Inr ts \<longrightarrow>
            (\<exists>ts0 ts1. tilesetLoadFromImage e floorImagePath ts0 = Some ts1 \<and>
               ts_tiles ts = ts_tiles ts1 \<and> ts_imageSource ts = ts_imageSource ts1)"
    using tilesetHeader_loaded [OF assms(1)] by blast
  have rest: "toTileset e st (VMap vm) = (Null, st\<lparr>mError := message\<rparr>) \<and>
            (\<forall>doc st0 dir pre post tss.
               orientationFromString (toString e (value_of doc ''orientation'')) \<noteq> Unknown \<and>
               toList (value_of doc ''tilesets'') = pre @ VMap vm # post \<and>
               toTilesets e (st0\<lparr>mGidMapper := [], mMapDir := dir\<rparr>) pre = (Built tss, st) \<longrightarrow>
               toMap e st0 (VMap doc) dir = (Null, st\<lparr>mError := message\<rparr>))"
    if fails: "\<forall>ts0. tilesetLoadFromImage e floorImagePath ts0 = None"
  proof -
    have one: "toTileset e st (VMap vm) = (Null, st\<lparr>mError := message\<rparr>)"
      using tilesetHeader_load_fails(2) [OF assms(1) fails assms(2-4)] assms(5)
      by (simp add: toTileset_def)
    have two: "toMap e st0 (VMap doc) dir = (Null, st\<lparr>mError := message\<rparr>)"
      if "orientationFromString (toString e (value_of doc ''orientation'')) \<noteq> Unknown"
        and "toList (value_of doc ''tilesets'') = pre @ VMap vm # post"
        and "toTilesets e (st0\<lparr>mGidMapper := [], mMapDir := dir\<rparr>) pre = (Built tss, st)"
      for doc st0 dir pre post tss
      using that toTilesets_stops [OF that(3) one] by (intro toMap_tileset_Null) simp_all
    show ?thesis using one two by blast
  qed
  show ?thesis using zero rest by blast
qed

theorem tileset_image_is_fixed_resource_witness:
  "toMap noFloorEnv freshConverter (VMap scenarioDocument) ''/maps'' =
     (Null, \<lparr>mError = ''Error loading tileset image:'' @ [newline] @ quoted floorImagePath,
             mGidMapper = [], mMapDir = ''/maps''\<rparr>) \<and>
   imageSize noFloorEnv (resolvePath noFloorEnv ''/maps'' (VString ''tiles.png'')) = Some (64, 16) \<and>
   (\<exists>ts0 ts1. tilesetLoadFromImage sampleEnv floorImagePath ts0 = Some ts1 \<and>
       ts_imageSource ts1 = floorImagePath \<and> length (ts_tiles ts1) = 4)"
proof -
  let ?vm = "toVariantMap scenarioTileset"
  let ?st = "freshConverter\<lparr>mGidMapper := [], mMapDir := ''/maps''\<rparr>"
  have p: "\<not> isNull (value_of ?vm ''image'')" "0 < toInt (value_of ?vm ''tilewidth'')"
    "0 < toInt (value_of ?vm ''tileheight'')" "toInt (value_of ?vm ''firstgid'') \<noteq> 0"
    by (simp_all add: scenarioTileset_def eval_defs)
  note n = tileset_image_is_fixed_resource [OF p refl, of noFloorEnv ?st]
  note s = tileset_image_is_fixed_resource [OF p refl, of sampleEnv ?st]
  have fails: "\<forall>ts0. tilesetLoadFromImage noFloorEnv floorImagePath ts0 = None"
    by (simp add: noFloorEnv_def floorImagePath_def)
  have o: "orientationFromString (toString noFloorEnv (value_of scenarioDocument ''orientation'')) \<noteq> Unknown"
    and l: "toList (value_of scenarioDocument ''tilesets'') = [] @ VMap ?vm # []"
    and e: "toTilesets noFloorEnv (freshConverter\<lparr>mGidMapper := [], mMapDir := ''/maps''\<rparr>) [] = (Built [], ?st)"
    by (simp_all add: scenarioDocument_def scenarioTileset_def orientationFromString_def eval_defs)
  have one: "toMap noFloorEnv freshConverter (VMap scenarioDocument) ''/maps'' =
     (Null, ?st\<lparr>mError := ''Error loading tileset image:'' @ [newline] @ quoted floorImagePath\<rparr>)"
    using n fails o l e by blast
  have two: "imageSize noFloorEnv (resolvePath noFloorEnv ''/maps'' (VString ''tiles.png'')) = Some (64, 16)"
    by (simp add: noFloorEnv_def eval_defs)
  have "\<exists>ts. tilesetHeader sampleEnv ?vm = Inr ts \<and> ts_imageSource ts = floorImagePath \<and>
             length (ts_tiles ts) = 4"
    by (simp add: scenarioTileset_def build_defs eval_defs Let_def)
  then have three: "\<exists>ts0 ts1. tilesetLoadFromImage sampleEnv floorImagePath ts0 = Some ts1 \<and>
       ts_imageSource ts1 = floorImagePath \<and> length (ts_tiles ts1) = 4"
    using s by metis
  show ?thesis using one two three by (simp add: freshConverter_def)
qed

subsection \<open>Layers of an unknown type\<close>

lemma toLayer_unknown_type:
  assumes "\<not> equals_text e (value_of (toVariantMap variant) ''type'') ''tilelayer''"
    and "\<not> equals_text e (value_of (toVariantMap variant) ''type'') ''objectgroup''"
    and "\<not> equals_text e (value_of (toVariantMap variant) ''type'') ''imagelayer''"
  shows "toLayer e st variant = (Null, st)"
  using assms by (simp add: toLayer_def Let_def)

text \<open>
  C2: a conversion that returns null leaves a message for its first fatal condition in
  the converter, also when the cause is a layer whose type is none of tilelayer,
  objectgroup and imagelayer. The source returns the null layer without writing
  \<^verbatim>\<open>mError\<close>: on a converter with no message yet, the document below converts to null and
  the message is still empty.
\<close>

theorem unknown_layer_type_leaves_no_message:
  "toMap sampleEnv freshConverter unknownLayerDocument ''/maps'' =
     (Null, \<lparr>mError = [], mGidMapper = [], mMapDir = ''/maps''\<rparr>)"
  by (simp add: unknownLayerDocument_def build_defs eval_defs Let_def)

subsection \<open>Tile overrides\<close>

lemma tileOverride_negative:
  assumes "QString_toInt (fst entry) < 0"
  shows "tileOverride e entries st ts entry =
           (OutOfContract,
            st\<lparr>mError := ''Tileset tile index negative:'' @ [newline] @
                            quoted (QString_number (QString_toInt (fst entry)))\<rparr>)"
proof -
  have "0 \<le> tileCount ts" by (simp add: tileCount_def)
  then have "\<not> tileCount ts \<le> QString_toInt (fst entry)" using assms by linarith
  then show ?thesis using assms by (simp add: tileOverride_def Let_def)
qed

text \<open>
  C3: a negative index in the tile overrides makes the tileset builder return a null
  tileset at once. The source writes the message and goes on with the same entry: for the
  record below the builder does not return null, it reaches \<^verbatim>\<open>tileAt\<close> with the index -1.
\<close>

theorem negative_tile_index_goes_on:
  "toTileset sampleEnv freshConverter negativeIndexTileset =
     (OutOfContract,
      freshConverter\<lparr>mError := ''Tileset tile index negative:'' @ [newline] @ quoted ''-1''\<rparr>)"
  by (simp add: negativeIndexTileset_def build_defs eval_defs Let_def QString_number_def
      nat_to_string.simps digit_char_def)

lemma addTile_count: "tileCount (addTile ts) = tileCount ts + 1"
  by (simp add: addTile_def tileCount_def)

lemma addTilesUpTo_count:
  "tileCount (addTilesUpTo ts i k) = tileCount ts + (if i \<le> k then k + 1 - i else 0)"
proof (induction ts i k rule: addTilesUpTo.induct)
  case (1 ts i tileIndex)
  show ?case
  proof (cases "i \<le> tileIndex")
    case True
    then show ?thesis
      using "1.IH" by (subst addTilesUpTo.simps) (simp add: addTile_count)
  next
    case False
    then show ?thesis by (subst addTilesUpTo.simps) simp
  qed
qed

lemma tileOverride_too_high:
  assumes "tileCount ts \<le> QString_toInt (fst entry)" and "entries \<le> QString_toInt (fst entry)"
  shows "tileOverride e entries st ts entry =
           (Null, st\<lparr>mError := ''Tileset tile index too high:'' @ [newline] @
                                  quoted (QString_number (QString_toInt (fst entry)))\<rparr>)"
proof -
  have "0 \<le> tileCount ts" by (simp add: tileCount_def)
  then have "\<not> QString_toInt (fst entry) < 0" using assms(1) by linarith
  then show ?thesis using assms by (simp add: tileOverride_def Let_def)
qed

lemma tileOverride_count:
  assumes "tileOverride e entries st ts entry = (Built ts', st')"
  shows "tileCount ts' \<le> max (tileCount ts) entries"
proof -
  let ?i = "QString_toInt (fst entry)"
  let ?ts1 = "if tileCount ts \<le> ?i then addTilesUpTo ts (tileCount ts) ?i else ts"
  have low: "\<not> (tileCount ts \<le> ?i \<and> entries \<le> ?i)"
    using assms by (auto simp: tileOverride_def Let_def)
  have "tileCount ts' = tileCount ?ts1"
    using assms low
    by (auto simp: tileOverride_def Let_def tileCount_def split: if_splits option.splits)
  moreover have "tileCount ?ts1 \<le> max (tileCount ts) entries"
    using low by (auto simp: addTilesUpTo_count)
  ultimately show ?thesis by simp
qed

lemma tileOverrides_count:
  "tileOverrides e entries st ts es = (Built ts', st') \<Longrightarrow>
   tileCount ts' \<le> max (tileCount ts) entries"
proof (induction es arbitrary: st ts)
  case Nil
  then show ?case by simp
next
  case (Cons entry es)
  then obtain ts1 st1 where s: "tileOverride e entries st ts entry = (Built ts1, st1)"
    and r: "tileOverrides e entries st1 ts1 es = (Built ts', st')"
    by (auto split: prod.splits built.splits)
  have "tileCount ts' \<le> max (tileCount ts1) entries" using Cons.IH r by blast
  moreover have "tileCount ts1 \<le> max (tileCount ts) entries" using tileOverride_count s by blast
  ultimately show ?case by simp
qed

lemma tileOverrides_all_below:
  "tileOverrides e entries st ts es = (Built ts', st') \<Longrightarrow> tileCount ts \<le> entries \<Longrightarrow>
   \<forall>entry\<in>set es. QString_toInt (fst entry) < entries"
proof (induction es arbitrary: st ts)
  case Nil
  then show ?case by simp
next
  case (Cons entry es)
  then obtain ts1 st1 where s: "tileOverride e entries st ts entry = (Built ts1, st1)"
    and r: "tileOverrides e entries st1 ts1 es = (Built ts', st')"
    by (auto split: prod.splits built.splits)
  have "tileCount ts1 \<le> entries" using tileOverride_count [OF s] Cons.prems(2) by simp
  then have rest: "\<forall>entry\<in>set es. QString_toInt (fst entry) < entries"
    using Cons.IH r by blast
  have "QString_toInt (fst entry) < entries"
  proof (rule ccontr)
    assume "\<not> QString_toInt (fst entry) < entries"
    then have "entries \<le> QString_toInt (fst entry)" by simp
    moreover then have "tileCount ts \<le> QString_toInt (fst entry)" using Cons.prems(2) by simp
    ultimately show False using tileOverride_too_high s by (metis built.distinct(1) fst_conv)
  qed
  then show ?case using rest by simp
qed

lemma tileProperty_count: "tileCount (tileProperty q entry ts) = tileCount ts"
  by (simp add: tileProperty_def Let_def tileCount_def)

lemma fold_tileProperty_count: "tileCount (fold (tileProperty q) es ts) = tileCount ts"
  by (induction es arbitrary: ts) (simp_all add: tileProperty_count)

lemma toTileset_Built:
  assumes "toTileset e st variant = (Built ts', st')"
  shows "\<exists>ts0 ts1 st1. tilesetHeader e (toVariantMap variant) = Inr ts0 \<and>
           tileOverrides e (int (length (toVariantMap (value_of (toVariantMap variant) ''tiles''))))
             st ts0 (toVariantMap (value_of (toVariantMap variant) ''tiles'')) = (Built ts1, st1) \<and>
           ts' = fold (tileProperty e)
                   (toVariantMap (value_of (toVariantMap variant) ''tileproperties'')) ts1"
  using assms
  by (auto simp: toTileset_def Let_def split: sum.splits prod.splits built.splits)

lemma tilesetHeader_no_image:
  assumes "tilesetHeader e vm = Inr ts0" and "isNull (value_of vm ''image'')"
  shows "tileCount ts0 = 0"
  using assms
  by (auto simp: tilesetHeader_def Let_def newTileset_def tileCount_def split: if_splits)

text \<open>
  C4: with \<open>n\<close> entries in the tile overrides, an entry whose index is at or beyond both
  the current tile count and \<open>n\<close> ends the builder with the message "Tileset tile index too
  high"; a round that goes through leaves at most \<open>max\<close> of the earlier count and \<open>n\<close>
  tiles; so a built tileset has no more tiles than the larger of \<open>n\<close> and the count its
  image gave, and with no image it has at most \<open>n\<close> tiles and every index is below \<open>n\<close>.
\<close>

theorem tile_growth_capped:
  assumes "tiles = toVariantMap (value_of (toVariantMap variant) ''tiles'')"
    and "n = int (length tiles)"
  shows "(\<forall>st ts entry. tileCount ts \<le> QString_toInt (fst entry) \<and> n \<le> QString_toInt (fst entry) \<longrightarrow>
            tileOverride e n st ts entry =
              (Null, st\<lparr>mError := ''Tileset tile index too high:'' @ [newline] @
                                     quoted (QString_number (QString_toInt (fst entry)))\<rparr>)) \<and>
         (\<forall>st ts entry ts' st'. tileOverride e n st ts entry = (Built ts', st') \<longrightarrow>
            tileCount ts' \<le> max (tileCount ts) n) \<and>
         (\<forall>ts' st'. toTileset e st variant = (Built ts', st') \<longrightarrow>
            (\<exists>ts0. tilesetHeader e (toVariantMap variant) = Inr ts0 \<and>
                   tileCount ts' \<le> max (tileCount ts0) n) \<and>
            (isNull (value_of (toVariantMap variant) ''image'') \<longrightarrow>
               tileCount ts' \<le> n \<and> (\<forall>entry\<in>set tiles. QString_toInt (fst entry) < n)))"
proof -
  have a: "\<forall>st ts entry. tileCount ts \<le> QString_toInt (fst entry) \<and> n \<le> QString_toInt (fst entry) \<longrightarrow>
            tileOverride e n st ts entry =
              (Null, st\<lparr>mError := ''Tileset tile index too high:'' @ [newline] @
                                     quoted (QString_number (QString_toInt (fst entry)))\<rparr>)"
    by (simp add: tileOverride_too_high)
  have b: "\<forall>st ts entry ts' st'. tileOverride e n st ts entry = (Built ts', st') \<longrightarrow>
            tileCount ts' \<le> max (tileCount ts) n"
    using tileOverride_count by blast
  have c: "(\<exists>ts0. tilesetHeader e (toVariantMap variant) = Inr ts0 \<and>
                   tileCount ts' \<le> max (tileCount ts0) n) \<and>
            (isNull (value_of (toVariantMap variant) ''image'') \<longrightarrow>
               tileCount ts' \<le> n \<and> (\<forall>entry\<in>set tiles. QString_toInt (fst entry) < n))"
    if built: "toTileset e st variant = (Built ts', st')" for ts' st'
  proof -
    obtain ts0 ts1 st1 where h: "tilesetHeader e (toVariantMap variant) = Inr ts0"
      and o: "tileOverrides e n st ts0 tiles = (Built ts1, st1)"
      and p: "ts' = fold (tileProperty e)
                     (toVariantMap (value_of (toVariantMap variant) ''tileproperties'')) ts1"
      using toTileset_Built [OF built] assms by blast
    have le: "tileCount ts' \<le> max (tileCount ts0) n"
      using tileOverrides_count [OF o] p by (simp add: fold_tileProperty_count)
    have "tileCount ts' \<le> n \<and> (\<forall>entry\<in>set tiles. QString_toInt (fst entry) < n)"
      if "isNull (value_of (toVariantMap variant) ''image'')"
    proof -
      have z: "tileCount ts0 = 0" using h that tilesetHeader_no_image by blast
      then have "0 \<le> n \<and> tileCount ts0 \<le> n" using assms(2) by simp
      then show ?thesis using le z tileOverrides_all_below [OF o] by simp
    qed
    then show ?thesis using h le by blast
  qed
  show ?thesis by (rule conjI [OF a conjI [OF b]]) (use c in blast)
qed

theorem tile_growth_capped_witness:
  "(\<exists>ts st'. toTileset sampleEnv freshConverter cappedTileset = (Built ts, st') \<and> tileCount ts \<le> 2) \<and>
   tileOverride sampleEnv 2 freshConverter (newTileset ''props'' 16 16 0 0) (''2000000000'', VMap []) =
     (Null, freshConverter\<lparr>mError := ''Tileset tile index too high:'' @ [newline] @
                                       quoted ''2000000000''\<rparr>) \<and>
   fst (toTileset sampleEnv freshConverter tooHighTileset) = Null"
proof -
  let ?tiles = "[(''0'', VMap []), (''1'', VMap [])]"
  have t: "?tiles = toVariantMap (value_of (toVariantMap cappedTileset) ''tiles'')"
    and n: "(2::int) = int (length ?tiles)"
    by (simp_all add: cappedTileset_def eval_defs)
  note c = tile_growth_capped [OF t n, of sampleEnv freshConverter]
  have "\<exists>ts st'. toTileset sampleEnv freshConverter cappedTileset = (Built ts, st')"
    by (simp add: cappedTileset_def build_defs eval_defs Let_def addTilesUpTo.simps
        overrideTile_def toReal_ok.simps)
  then obtain ts st' where b: "toTileset sampleEnv freshConverter cappedTileset = (Built ts, st')"
    by blast
  have nul: "isNull (value_of (toVariantMap cappedTileset) ''image'')"
    by (simp add: cappedTileset_def eval_defs)
  have one: "tileCount ts \<le> 2" using c b nul by blast
  have i: "QString_toInt ''2000000000'' = 2000000000" by (simp add: eval_defs)
  have "tileCount (newTileset ''props'' 16 16 0 0) \<le> QString_toInt (fst (''2000000000'', VMap [])) \<and>
        2 \<le> QString_toInt (fst (''2000000000'', VMap []))"
    by (simp add: i newTileset_def tileCount_def)
  then have two: "tileOverride sampleEnv 2 freshConverter (newTileset ''props'' 16 16 0 0) (''2000000000'', VMap []) =
     (Null, freshConverter\<lparr>mError := ''Tileset tile index too high:'' @ [newline] @
         quoted (QString_number (QString_toInt (fst (''2000000000'', VMap []))))\<rparr>)"
    using c by blast
  have s: "QString_number 2000000000 = ''2000000000''"
    by (simp add: QString_number_def nat_to_string.simps digit_char_def)
  have three: "fst (toTileset sampleEnv freshConverter tooHighTileset) = Null"
    by (simp add: tooHighTileset_def build_defs eval_defs Let_def addTilesUpTo.simps
        overrideTile_def)
  show ?thesis using b one two three by (simp add: i s)
qed

subsection \<open>Tile layers\<close>

lemma setCell_inside:
  assumes "0 \<le> x" "x < l_width ly" "0 \<le> y" "y < l_height ly"
  shows "setCell ly x y c = Some (ly\<lparr>grid := (grid ly)[nat (x + y * l_width ly) := c]\<rparr>)"
  using assms by (simp add: setCell_def)

lemma row_bound:
  fixes x y w h :: int
  assumes "0 < w" "0 \<le> x" "0 \<le> y" "x + y * w < w * h"
  shows "y < h"
proof (rule ccontr)
  assume "\<not> y < h"
  then have "h \<le> y" by simp
  then have "w * h \<le> w * y" using assms(1) by (simp add: mult_left_mono)
  also have "w * y = y * w" by (rule mult.commute)
  finally have "w * h \<le> y * w" .
  then show False using assms(2) assms(4) by linarith
qed

lemma fillCells_rows:
  assumes "0 < l_width ly" "0 \<le> x" "x < l_width ly" "0 \<le> y"
    and "\<forall>g\<in>set gs. toUInt_ok g \<noteq> None"
    and "nat (x + y * l_width ly) + length gs \<le> length (grid ly)"
    and "int (length (grid ly)) = l_width ly * l_height ly"
  shows "\<exists>ly'. fillCells st ly x y gs = (Built ly', st) \<and>
           l_width ly' = l_width ly \<and> l_height ly' = l_height ly \<and>
           grid ly' = take (nat (x + y * l_width ly)) (grid ly) @
                      map (\<lambda>g. gidToCell (mGidMapper st) (the (toUInt_ok g))) gs @
                      drop (nat (x + y * l_width ly) + length gs) (grid ly)"
  using assms
proof (induction gs arbitrary: ly x y)
  case Nil
  then show ?case by simp
next
  case (Cons g gs)
  let ?w = "l_width ly"
  let ?k = "nat (x + y * ?w)"
  obtain gid where gid: "toUInt_ok g = Some gid" using Cons.prems(5) by auto
  let ?c = "gidToCell (mGidMapper st) gid"
  let ?ly = "ly\<lparr>grid := (grid ly)[?k := ?c]\<rparr>"
  have nonneg: "0 \<le> x + y * ?w" using Cons.prems by simp
  have klt: "?k < length (grid ly)" using Cons.prems(6) by simp
  then have "x + y * ?w < ?w * l_height ly" using Cons.prems(7) nonneg by linarith
  then have ylt: "y < l_height ly" using row_bound Cons.prems by blast
  have sc: "setCell ly x y ?c = Some ?ly"
    using setCell_inside Cons.prems ylt by simp
  define x' where "x' = (if ?w \<le> x + 1 then 0 else x + 1)"
  define y' where "y' = (if ?w \<le> x + 1 then y + 1 else y)"
  have step: "fillCells st ly x y (g # gs) = fillCells st ?ly x' y' gs"
    using gid sc by (simp add: x'_def y'_def)
  have k': "nat (x' + y' * ?w) = Suc ?k"
  proof (cases "?w \<le> x + 1")
    case True
    then have "x = ?w - 1" using Cons.prems(3) by simp
    then have "x' + y' * ?w = x + y * ?w + 1" using True by (simp add: x'_def y'_def algebra_simps)
    then show ?thesis using nonneg by simp
  next
    case False
    then have "x' + y' * ?w = x + y * ?w + 1" by (simp add: x'_def y'_def)
    then show ?thesis using nonneg by simp
  qed
  have "\<exists>ly'. fillCells st ?ly x' y' gs = (Built ly', st) \<and>
           l_width ly' = l_width ?ly \<and> l_height ly' = l_height ?ly \<and>
           grid ly' = take (nat (x' + y' * l_width ?ly)) (grid ?ly) @
                      map (\<lambda>g. gidToCell (mGidMapper st) (the (toUInt_ok g))) gs @
                      drop (nat (x' + y' * l_width ?ly) + length gs) (grid ?ly)"
  proof (rule Cons.IH)
    show "0 < l_width ?ly" using Cons.prems by simp
    show "0 \<le> x'" using Cons.prems by (simp add: x'_def)
    show "x' < l_width ?ly" using Cons.prems by (simp add: x'_def)
    show "0 \<le> y'" using Cons.prems by (simp add: y'_def)
    show "\<forall>g\<in>set gs. toUInt_ok g \<noteq> None" using Cons.prems by simp
    show "nat (x' + y' * l_width ?ly) + length gs \<le> length (grid ?ly)"
      using k' Cons.prems(6) by simp
    show "int (length (grid ?ly)) = l_width ?ly * l_height ?ly" using Cons.prems by simp
  qed
  then obtain ly' where r: "fillCells st ?ly x' y' gs = (Built ly', st)"
    and w: "l_width ly' = ?w" and h: "l_height ly' = l_height ly"
    and g: "grid ly' = take (Suc ?k) ((grid ly)[?k := ?c]) @
                      map (\<lambda>g. gidToCell (mGidMapper st) (the (toUInt_ok g))) gs @
                      drop (Suc ?k + length gs) ((grid ly)[?k := ?c])"
    using k' by auto
  have t: "take (Suc ?k) ((grid ly)[?k := ?c]) = take ?k (grid ly) @ [?c]"
    using klt by (simp add: take_Suc_conv_app_nth)
  have d: "drop (Suc ?k + length gs) ((grid ly)[?k := ?c]) = drop (?k + length (g # gs)) (grid ly)"
    by simp
  show ?case
    using step r w h g t d gid by simp
qed

lemma fillCells_outside:
  assumes "l_width ly \<le> 0" "gs \<noteq> []"
  shows "fst (fillCells st ly 0 0 gs) \<noteq> Built ly'"
  using assms by (cases gs) (auto simp: setCell_def split: option.splits)

text \<open>
  The cells of a tile layer. For a record whose data entries all convert to an unsigned
  number and whose data list has exactly width times height entries, a layer the builder
  returns has that width and height and width times height cells, and its cell at (x, y)
  is the entry at index y times width plus x, resolved by the global-id mapper. With a
  width that is not negative the builder does return a layer. (A list has fewer than 2^31
  entries.)
\<close>

lemma toTileLayer_row_major:
  assumes "dataList = toList (value_of vm ''data'')"
    and "w = toInt (value_of vm ''width'')"
    and "h = toInt (value_of vm ''height'')"
    and numeric: "\<forall>g\<in>set dataList. toUInt_ok g \<noteq> None"
    and len: "int (length dataList) = w * h"
    and fits: "length dataList < 2147483648"
  shows "(0 \<le> w \<longrightarrow> (\<exists>ly. toTileLayer e st vm = (Built ly, st))) \<and>
         (\<forall>ly st'. toTileLayer e st vm = (Built ly, st') \<longrightarrow>
            l_width ly = w \<and> l_height ly = h \<and> int (length (grid ly)) = w * h \<and>
            (\<forall>x y. 0 \<le> x \<and> x < w \<and> 0 \<le> y \<and> y < h \<longrightarrow>
               Some (cellAt ly x y) =
                 map_option (gidToCell (mGidMapper st)) (toUInt_ok (dataList ! nat (y * w + x)))))"
proof -
  let ?conv = "\<lambda>g. gidToCell (mGidMapper st) (the (toUInt_ok g))"
  define ly0 where "ly0 = (newTileLayer (toString e (value_of vm ''name''))
       (toInt (value_of vm ''x'')) (toInt (value_of vm ''y'')) w h)
       \<lparr>l_opacity := toReal e (value_of vm ''opacity''),
        l_visible := toBool (value_of vm ''visible'')\<rparr>"
  have wrap: "wrap_int32 (w * h) = w * h"
    using len fits by (intro wrap_int32_id) linarith+
  have run: "toTileLayer e st vm = fillCells st ly0 0 0 dataList"
    using assms(1-3) len wrap by (simp add: toTileLayer_def Let_def ly0_def)
  have w0: "l_width ly0 = w" and h0: "l_height ly0 = h"
    by (simp_all add: ly0_def newTileLayer_def)
  have g0: "length (grid ly0) = length dataList"
    using wrap len by (simp add: ly0_def newTileLayer_def)
  have pos: "\<exists>ly. fillCells st ly0 0 0 dataList = (Built ly, st) \<and> l_width ly = w \<and>
               l_height ly = h \<and> grid ly = map ?conv dataList" if "0 < w"
  proof -
    have "\<exists>ly'. fillCells st ly0 0 0 dataList = (Built ly', st) \<and>
           l_width ly' = l_width ly0 \<and> l_height ly' = l_height ly0 \<and>
           grid ly' = take (nat (0 + 0 * l_width ly0)) (grid ly0) @ map ?conv dataList @
                      drop (nat (0 + 0 * l_width ly0) + length dataList) (grid ly0)"
      using that numeric g0 len w0 h0 by (intro fillCells_rows) simp_all
    then show ?thesis using g0 w0 h0 by simp
  qed
  have empty: "fillCells st ly0 0 0 dataList = (Built ly0, st) \<and> grid ly0 = []" if "dataList = []"
    using that g0 by simp
  have first: "0 \<le> w \<longrightarrow> (\<exists>ly. toTileLayer e st vm = (Built ly, st))"
  proof
    assume "0 \<le> w"
    show "\<exists>ly. toTileLayer e st vm = (Built ly, st)"
    proof (cases "w = 0")
      case True
      then have "dataList = []" using len by simp
      then show ?thesis using empty run by simp
    next
      case False
      then have "0 < w" using \<open>0 \<le> w\<close> by simp
      then show ?thesis using pos run by auto
    qed
  qed
  have second: "l_width ly = w \<and> l_height ly = h \<and> int (length (grid ly)) = w * h \<and>
            (\<forall>x y. 0 \<le> x \<and> x < w \<and> 0 \<le> y \<and> y < h \<longrightarrow>
               Some (cellAt ly x y) =
                 map_option (gidToCell (mGidMapper st)) (toUInt_ok (dataList ! nat (y * w + x))))"
    if built: "toTileLayer e st vm = (Built ly, st')" for ly st'
  proof (cases "0 < w")
    case True
    then obtain ly1 where r: "fillCells st ly0 0 0 dataList = (Built ly1, st)"
      and p: "l_width ly1 = w" "l_height ly1 = h" "grid ly1 = map ?conv dataList"
      using pos by blast
    have eq: "ly = ly1" using r run built by simp
    have cells: "Some (cellAt ly x y) =
                 map_option (gidToCell (mGidMapper st)) (toUInt_ok (dataList ! nat (y * w + x)))"
      if xy: "0 \<le> x \<and> x < w \<and> 0 \<le> y \<and> y < h" for x y
    proof -
      have "(y + 1) * w \<le> h * w" using xy True by (intro mult_right_mono) simp_all
      then have "x + y * w < w * h" using xy by (simp add: algebra_simps)
      moreover have "0 \<le> x + y * w" using xy True by simp
      ultimately have i: "nat (x + y * w) < length dataList" using len by linarith
      then obtain gid where gid: "toUInt_ok (dataList ! nat (x + y * w)) = Some gid"
        using numeric by (metis nth_mem option.exhaust)
      have "cellAt ly x y = ?conv (dataList ! nat (x + y * w))"
        using i eq p by (simp add: cellAt_def)
      then show ?thesis using gid by (simp add: add.commute)
    qed
    show ?thesis using eq p len cells by simp
  next
    case False
    show ?thesis
    proof (cases "dataList = []")
      case True
      then have "ly = ly0" using empty run built by simp
      moreover have "\<not> (0 \<le> x \<and> x < w)" for x using False by linarith
      ultimately show ?thesis using w0 h0 g0 True len by auto
    next
      case nonempty: False
      have "fst (fillCells st ly0 0 0 dataList) \<noteq> Built ly"
        using False nonempty w0 by (intro fillCells_outside) simp_all
      moreover have "fst (fillCells st ly0 0 0 dataList) = Built ly"
        using run built by (metis fst_conv)
      ultimately show ?thesis by simp
    qed
  qed
  show ?thesis using first second by blast
qed

lemma toTileLayer_row_major_scenario:
  "\<exists>ly. toTileLayer sampleEnv scenarioConverter scenarioLayer = (Built ly, scenarioConverter) \<and>
        length (grid ly) = 4 \<and> cellAt ly 0 0 = EmptyCell \<and> cellAt ly 1 0 = TileCell 1 0 \<and>
        cellAt ly 0 1 = TileCell 1 1 \<and> cellAt ly 1 1 = EmptyCell"
proof -
  let ?data = "[VInt 0, VInt 1, VInt 2, VInt 5]"
  have d: "?data = toList (value_of scenarioLayer ''data'')"
    and w: "(2::int) = toInt (value_of scenarioLayer ''width'')"
    and h: "(2::int) = toInt (value_of scenarioLayer ''height'')"
    by (simp_all add: scenarioLayer_def eval_defs)
  have n: "\<forall>g\<in>set ?data. toUInt_ok g \<noteq> None" by simp
  have l: "int (length ?data) = 2 * 2" and f: "length ?data < 2147483648" by simp_all
  note t = toTileLayer_row_major [OF d w h n l f, of sampleEnv scenarioConverter]
  from t obtain ly where b: "toTileLayer sampleEnv scenarioConverter scenarioLayer = (Built ly, scenarioConverter)"
    by auto
  from t b have c: "int (length (grid ly)) = 2 * 2"
    and cells: "\<And>x y. 0 \<le> x \<and> x < 2 \<and> 0 \<le> y \<and> y < 2 \<Longrightarrow>
       Some (cellAt ly x y) =
         map_option (gidToCell (mGidMapper scenarioConverter)) (toUInt_ok (?data ! nat (y * 2 + x)))"
    by blast+
  have "cellAt ly 0 0 = EmptyCell" "cellAt ly 1 0 = TileCell 1 0"
    "cellAt ly 0 1 = TileCell 1 1" "cellAt ly 1 1 = EmptyCell"
    using cells [of 0 0] cells [of 1 0] cells [of 0 1] cells [of 1 1]
    by (simp_all add: scenario_cells wrap_uint32_def)
  then show ?thesis using b c by auto
qed

text \<open>
  C5: a tile-layer record whose data entries are all numeric and whose data list has
  exactly width times height entries gives a tile layer of width times height cells, the
  cell at (x, y) resolved from the entry at index y times width plus x. The source tests
  the length only: for width -2, height -2 and four numeric entries the test passes, a
  layer of -2 by -2 is constructed, and the first round of the loop calls \<^verbatim>\<open>setCell\<close> at
  (0, 0), outside that layer; no tile layer comes back.
\<close>

theorem negative_layer_size_passes_the_length_test:
  "map toUInt_ok (toList (value_of negativeSizeLayer ''data'')) = [Some 1, Some 1, Some 1, Some 1] \<and>
   int (length (toList (value_of negativeSizeLayer ''data''))) =
     toInt (value_of negativeSizeLayer ''width'') * toInt (value_of negativeSizeLayer ''height'') \<and>
   toTileLayer e st negativeSizeLayer = (OutOfContract, st)"
  by (simp add: negativeSizeLayer_def toTileLayer_def newTileLayer_def setCell_def Let_def
      value_of_def toInt_def wrap_int32_def wrap_uint32_def)

lemma corrupt_layer_data_in_range:
  assumes "dataList = toList (value_of vm ''data'')"
    and "w = toInt (value_of vm ''width'')" and "h = toInt (value_of vm ''height'')"
    and "- 2147483648 \<le> w * h" and "w * h < 2147483648"
    and "int (length dataList) \<noteq> w * h"
  shows "toTileLayer e st vm =
           (Null, st\<lparr>mError := ''Corrupt layer data for layer '' @
                                  quoted (toString e (value_of vm ''name''))\<rparr>)"
  using assms by (simp add: toTileLayer_def Let_def wrap_int32_id)

text \<open>
  C6: a tile-layer record whose data list has not width times height entries makes the
  builder fail with "Corrupt layer data". The source compares the length with the product
  of two \<^verbatim>\<open>int\<close>s: for width and height 65536 and no data the product wraps to 0, the
  lengths agree, and the builder returns a layer of that width and height with no cells.
\<close>

theorem overflowing_layer_size_is_accepted:
  "int (length (toList (value_of overflowLayer ''data''))) \<noteq>
     toInt (value_of overflowLayer ''width'') * toInt (value_of overflowLayer ''height'') \<and>
   toTileLayer sampleEnv freshConverter overflowLayer =
     (Built \<lparr>l_name = ''huge'', l_x = 0, l_y = 0, l_width = 65536, l_height = 65536,
             l_opacity = 0, l_visible = False, l_properties = [], grid = []\<rparr>,
      freshConverter)"
  by (simp add: overflowLayer_def build_defs eval_defs Let_def)

subsection \<open>Objects\<close>

lemma toObjectGroup_objects:
  "toObjectGroup e st vm = (Built og, st') \<Longrightarrow>
   objects og = map (toMapObject e st) (toList (value_of vm ''objects''))"
  by (auto simp: toObjectGroup_def Let_def split: if_splits)

lemma toMapObject_shape:
  assumes "isValid (value_of (toVariantMap v) ''polyline'')"
    and "\<not> contains (toVariantMap v) ''ellipse''"
  shows "o_shape (toMapObject e st v) = Polyline \<and>
         o_polygon (toMapObject e st v) = toPolygon e (value_of (toVariantMap v) ''polyline'')"
  using assms by (simp add: toMapObject_def Let_def applyShape_def)

text \<open>
  C7: an object record with a polygon list and a polyline list and no ellipse marker gives
  an object of shape Polyline whose points are those of the polyline list.
\<close>

theorem polyline_overwrites_polygon:
  assumes "toObjectGroup e st vm = (Built og, st')"
    and "i < length (toList (value_of vm ''objects''))"
    and "m = toVariantMap (toList (value_of vm ''objects'') ! i)"
    and "isValid (value_of m ''polygon'')"
    and "isValid (value_of m ''polyline'')"
    and "\<not> contains m ''ellipse''"
  shows "o_shape (objects og ! i) = Polyline \<and>
         o_polygon (objects og ! i) = toPolygon e (value_of m ''polyline'')"
  using assms toObjectGroup_objects [OF assms(1)] by (simp add: toMapObject_shape)

theorem polyline_overwrites_polygon_witness:
  "\<exists>og. toObjectGroup sampleEnv scenarioConverter stampGroup = (Built og, scenarioConverter) \<and>
         o_shape (objects og ! 2) = Polyline \<and> o_polygon (objects og ! 2) = [(1, 2), (3, 4)]"
proof -
  obtain og where b: "toObjectGroup sampleEnv scenarioConverter stampGroup = (Built og, scenarioConverter)"
    using stampGroup_built by blast
  let ?m = "[(''polygon'', VList [VMap [(''x'', VInt 0), (''y'', VInt 0)]]),
             (''polyline'', VList [VMap [(''x'', VInt 1), (''y'', VInt 2)],
                                   VMap [(''x'', VInt 3), (''y'', VInt 4)]])]"
  have len: "2 < length (toList (value_of stampGroup ''objects''))"
    and m: "?m = toVariantMap (toList (value_of stampGroup ''objects'') ! 2)"
    by (simp_all add: stampGroup_def eval_defs)
  have p: "isValid (value_of ?m ''polygon'')" "isValid (value_of ?m ''polyline'')"
    "\<not> contains ?m ''ellipse''"
    by (simp_all add: eval_defs)
  show ?thesis
    using b polyline_overwrites_polygon [OF b len m p]
    by (simp add: eval_defs)
qed

lemma toMapObject_stamp:
  assumes "gid = toInt (value_of (toVariantMap v) ''gid'')"
    and "gid \<noteq> 0"
    and "cellTile (mGidMapper st) (gidToCell (mGidMapper st) (wrap_uint32 gid)) = Some t"
  shows "o_cell (toMapObject e st v) = gidToCell (mGidMapper st) (wrap_uint32 gid) \<and>
         o_width (toMapObject e st v) =
           (if toReal e (value_of (toVariantMap v) ''width'') = 0 then of_int (fst (t_size t))
            else toReal e (value_of (toVariantMap v) ''width'')) \<and>
         o_height (toMapObject e st v) =
           (if toReal e (value_of (toVariantMap v) ''height'') = 0 then of_int (snd (t_size t))
            else toReal e (value_of (toVariantMap v) ''height''))"
  using assms
  by (simp add: toMapObject_def Let_def applyShape_def stampCell_def newMapObject_def)

text \<open>
  C8: for an object record whose gid resolves to a tile, the object carries that cell; its
  width is the width of the tile when the width of the record is 0 and the width of the
  record otherwise, and likewise its height.
\<close>

theorem stamp_backfills_zero_size:
  assumes "toObjectGroup e st vm = (Built og, st')"
    and "i < length (toList (value_of vm ''objects''))"
    and "m = toVariantMap (toList (value_of vm ''objects'') ! i)"
    and "gid = toInt (value_of m ''gid'')"
    and "cellTile (mGidMapper st) (gidToCell (mGidMapper st) (wrap_uint32 gid)) = Some t"
  shows "o_cell (objects og ! i) = gidToCell (mGidMapper st) (wrap_uint32 gid) \<and>
         o_width (objects og ! i) =
           (if toReal e (value_of m ''width'') = 0 then of_int (fst (t_size t))
            else toReal e (value_of m ''width'')) \<and>
         o_height (objects og ! i) =
           (if toReal e (value_of m ''height'') = 0 then of_int (snd (t_size t))
            else toReal e (value_of m ''height''))"
proof -
  have "gid \<noteq> 0"
  proof
    assume "gid = 0"
    then have "cellTile (mGidMapper st) (gidToCell (mGidMapper st) (wrap_uint32 gid)) = None"
      by (simp add: wrap_uint32_def gidToCell_def)
    then show False using assms(5) by simp
  qed
  then show ?thesis
    using toMapObject_stamp [of gid "toList (value_of vm ''objects'') ! i" st t e]
      assms toObjectGroup_objects [OF assms(1)]
    by simp
qed

theorem stamp_backfills_zero_size_witness:
  "\<exists>og. toObjectGroup sampleEnv scenarioConverter stampGroup = (Built og, scenarioConverter) \<and>
         o_cell (objects og ! 0) = TileCell 1 1 \<and>
         o_width (objects og ! 0) = 16 \<and> o_height (objects og ! 0) = 16 \<and>
         o_width (objects og ! 1) = 5 \<and> o_height (objects og ! 1) = 16"
proof -
  obtain og where b: "toObjectGroup sampleEnv scenarioConverter stampGroup = (Built og, scenarioConverter)"
    using stampGroup_built by blast
  have len0: "0 < length (toList (value_of stampGroup ''objects''))"
    and len1: "1 < length (toList (value_of stampGroup ''objects''))"
    by (simp_all add: stampGroup_def eval_defs)
  have m0: "[(''gid'', VInt 2), (''height'', VInt 0), (''width'', VInt 0)] =
              toVariantMap (toList (value_of stampGroup ''objects'') ! 0)"
    and m1: "[(''gid'', VInt 2), (''height'', VInt 0), (''width'', VInt 5)] =
              toVariantMap (toList (value_of stampGroup ''objects'') ! 1)"
    by (simp_all add: stampGroup_def eval_defs)
  have g0: "(2::int) = toInt (value_of [(''gid'', VInt 2), (''height'', VInt 0), (''width'', VInt 0)] ''gid'')"
    and g1: "(2::int) = toInt (value_of [(''gid'', VInt 2), (''height'', VInt 0), (''width'', VInt 5)] ''gid'')"
    by (simp_all add: eval_defs)
  have c: "cellTile (mGidMapper scenarioConverter)
             (gidToCell (mGidMapper scenarioConverter) (wrap_uint32 2)) =
           Some ((placeholderTile 1)\<lparr>t_size := (16, 16)\<rparr>)"
    using scenario_tile by (simp add: wrap_uint32_def scenario_cells)
  show ?thesis
    using b stamp_backfills_zero_size [OF b len0 m0 g0 c]
      stamp_backfills_zero_size [OF b len1 m1 g1 c]
    by (simp add: eval_defs scenario_cells)
qed

subsection \<open>Extension records\<close>

text \<open>
  C9: for an object of the teleporter or of the camera-trigger category, the stored target
  is empty when the text of the target field is the literal 0, and is that text unchanged
  otherwise.
\<close>

theorem target_zero_is_empty:
  "teleporterTarget (toRTBMapObject q vm Teleporter) =
     (if toString q (value_of vm ''teleportertarget'') = ''0'' then []
      else toString q (value_of vm ''teleportertarget'')) \<and>
   cameraTarget (toRTBMapObject q vm CameraTrigger) =
     (if toString q (value_of vm ''cameratarget'') = ''0'' then []
      else toString q (value_of vm ''cameratarget''))"
  by (simp add: sentinelTarget_def)

theorem target_zero_is_empty_witness:
  "teleporterTarget (toRTBMapObject sampleEnv [(''teleportertarget'', VString ''0'')] Teleporter) = [] \<and>
   teleporterTarget (toRTBMapObject sampleEnv [(''teleportertarget'', VString ''exit 7'')] Teleporter) = ''exit 7'' \<and>
   cameraTarget (toRTBMapObject sampleEnv [(''cameratarget'', VInt 0)] CameraTrigger) = [] \<and>
   cameraTarget (toRTBMapObject sampleEnv [(''cameratarget'', VString ''00'')] CameraTrigger) = ''00''"
  using target_zero_is_empty [of sampleEnv "[(''teleportertarget'', VString ''0'')]"]
    target_zero_is_empty [of sampleEnv "[(''teleportertarget'', VString ''exit 7'')]"]
    target_zero_is_empty [of sampleEnv "[(''cameratarget'', VInt 0)]"]
    target_zero_is_empty [of sampleEnv "[(''cameratarget'', VString ''00'')]"]
  by (simp add: value_of_def QString_number_def nat_to_string.simps digit_char_def)

subsection \<open>Visibility\<close>

text \<open>
  C10: a layer record without the key "visible" gives a layer that is not visible, from
  each of the three layer builders and from the dispatcher; an object record without the
  key gives a visible object.
\<close>

theorem layer_without_visible_is_hidden:
  assumes "\<not> contains vm ''visible''"
  shows "(\<forall>ly st'. toTileLayer e st vm = (Built ly, st') \<longrightarrow> l_visible ly = False) \<and>
         (\<forall>og st'. toObjectGroup e st vm = (Built og, st') \<longrightarrow> l_visible og = False) \<and>
         (\<forall>il st'. toImageLayer e st vm = (Built il, st') \<longrightarrow> l_visible il = False) \<and>
         (\<forall>l st'. toLayer e st (VMap vm) = (Built l, st') \<longrightarrow> layerVisible l = False) \<and>
         o_visible (toMapObject e st (VMap vm)) = True"
proof -
  have v: "toBool (value_of vm ''visible'') = False"
    using assms by (simp add: value_of_absent)
  have "layerVisible l = False" if "toLayer e st (VMap vm) = (Built l, st')" for l st'
    using toLayer_visible [OF that] v by simp
  then show ?thesis
    using v assms toTileLayer_visible toObjectGroup_visible toImageLayer_visible
    by (simp add: toMapObject_visible) blast
qed

theorem layer_without_visible_is_hidden_witness:
  "(\<exists>ly. toTileLayer sampleEnv scenarioConverter scenarioLayer = (Built ly, scenarioConverter) \<and>
         l_visible ly = False) \<and>
   (\<exists>og. toObjectGroup sampleEnv scenarioConverter stampGroup = (Built og, scenarioConverter) \<and>
         l_visible og = False) \<and>
   (\<exists>il. toImageLayer sampleEnv scenarioConverter bareImageLayer = (Built il, scenarioConverter) \<and>
         l_visible il = False) \<and>
   (\<exists>l. toLayer sampleEnv scenarioConverter (VMap bareImageLayer) = (Built l, scenarioConverter) \<and>
        layerVisible l = False) \<and>
   o_visible (toMapObject sampleEnv scenarioConverter (VMap [(''name'', VString ''door'')])) = True"
proof -
  have a: "\<not> contains scenarioLayer ''visible''" "\<not> contains stampGroup ''visible''"
    "\<not> contains bareImageLayer ''visible''" "\<not> contains [(''name'', VString ''door'')] ''visible''"
    by (simp_all add: scenarioLayer_def stampGroup_def bareImageLayer_def contains_def)
  obtain ly where t: "toTileLayer sampleEnv scenarioConverter scenarioLayer = (Built ly, scenarioConverter)"
    using scenarioLayer_built by blast
  obtain og where g: "toObjectGroup sampleEnv scenarioConverter stampGroup = (Built og, scenarioConverter)"
    using stampGroup_built by blast
  have "\<exists>il. toImageLayer sampleEnv scenarioConverter bareImageLayer = (Built il, scenarioConverter)"
    by (simp add: toImageLayer_def Let_def bareImageLayer_def eval_defs)
  then obtain il where i: "toImageLayer sampleEnv scenarioConverter bareImageLayer = (Built il, scenarioConverter)"
    by blast
  have "\<exists>l. toLayer sampleEnv scenarioConverter (VMap bareImageLayer) = (Built l, scenarioConverter)"
    by (simp add: toLayer_def toImageLayer_def Let_def bareImageLayer_def eval_defs)
  then obtain l where y: "toLayer sampleEnv scenarioConverter (VMap bareImageLayer) = (Built l, scenarioConverter)"
    by blast
  have 1: "l_visible ly = False"
    using layer_without_visible_is_hidden [OF a(1), of sampleEnv scenarioConverter] t by blast
  have 2: "l_visible og = False"
    using layer_without_visible_is_hidden [OF a(2), of sampleEnv scenarioConverter] g by blast
  have 3: "l_visible il = False" and 4: "layerVisible l = False"
    using layer_without_visible_is_hidden [OF a(3), of sampleEnv scenarioConverter] i y by blast+
  have 5: "o_visible (toMapObject sampleEnv scenarioConverter (VMap [(''name'', VString ''door'')])) = True"
    using layer_without_visible_is_hidden [OF a(4), of sampleEnv scenarioConverter] by blast
  show ?thesis using t g i y 1 2 3 4 5 by simp
qed

end
